theory Spec2Isabelle
  imports Complex_Main
begin

section \<open>Quota store (src/utils/userData.js)\<close>

text \<open>
  User records live in Redis under \<open>user_data:<id>\<close> as JSON documents. A document read
  back may lack fields (older formats); \<open>getUserDataInternal\<close> fills them with \<open>??\<close>.
  Minutes are integers: every caller passes an integer option or a \<open>Math.ceil\<close> result.
  They are modelled as unbounded integers; the numbers of the program are IEEE doubles,
  which agree with them up to \<open>2^53\<close> in magnitude.
\<close>

type_synonym userId = string

record userData =
  remainingMinutes :: int
  isPremium :: bool
  personalizationNotes :: string
  llmProfileSummary :: string

record userDoc =
  doc_remainingMinutes :: "int option"
  doc_isPremium :: "bool option"
  doc_personalizationNotes :: "string option"
  doc_llmProfileSummary :: "string option"

type_synonym quota_store = "userId \<rightharpoonup> userDoc"

text \<open>Which Redis round-trips of one call reject: the \<open>get\<close>, the \<open>set\<close> that initialises
  a missing user, and the \<open>set\<close> of \<open>saveUserDataInternal\<close>.\<close>

record redis_faults =
  get_fails :: bool
  init_fails :: bool
  save_fails :: bool

definition DEFAULT_STARTING_TIME :: int where
  "DEFAULT_STARTING_TIME = 20"

definition defaultData :: userData where
  "defaultData = \<lparr>remainingMinutes = DEFAULT_STARTING_TIME, isPremium = False,
     personalizationNotes = [], llmProfileSummary = []\<rparr>"

definition stringify :: "userData \<Rightarrow> userDoc" where
  "stringify d = \<lparr>doc_remainingMinutes = Some (remainingMinutes d),
     doc_isPremium = Some (isPremium d),
     doc_personalizationNotes = Some (personalizationNotes d),
     doc_llmProfileSummary = Some (llmProfileSummary d)\<rparr>"

definition parse_doc :: "userDoc \<Rightarrow> userData" where
  "parse_doc j = \<lparr>
     remainingMinutes = (case doc_remainingMinutes j of None \<Rightarrow> DEFAULT_STARTING_TIME | Some m \<Rightarrow> m),
     isPremium = (case doc_isPremium j of None \<Rightarrow> False | Some b \<Rightarrow> b),
     personalizationNotes = (case doc_personalizationNotes j of None \<Rightarrow> [] | Some n \<Rightarrow> n),
     llmProfileSummary = (case doc_llmProfileSummary j of None \<Rightarrow> [] | Some n \<Rightarrow> n)\<rparr>"

definition getUserDataInternal :: "redis_faults \<Rightarrow> quota_store \<Rightarrow> userId \<Rightarrow> userData \<times> quota_store" where
  "getUserDataInternal f st uid =
     (if get_fails f then (defaultData, st)
      else case st uid of
        Some j \<Rightarrow> (parse_doc j, st)
      | None \<Rightarrow> if init_fails f then (defaultData, st)
                else (defaultData, st(uid \<mapsto> stringify defaultData)))"

definition saveUserDataInternal :: "redis_faults \<Rightarrow> quota_store \<Rightarrow> userId \<Rightarrow> userData \<Rightarrow> quota_store" where
  "saveUserDataInternal f st uid d = (if save_fails f then st else st(uid \<mapsto> stringify d))"

definition getUserTime :: "redis_faults \<Rightarrow> quota_store \<Rightarrow> userId \<Rightarrow> int \<times> quota_store" where
  "getUserTime f st uid = (let (d, st1) = getUserDataInternal f st uid in (remainingMinutes d, st1))"

definition getUserPremiumStatus :: "redis_faults \<Rightarrow> quota_store \<Rightarrow> userId \<Rightarrow> bool \<times> quota_store" where
  "getUserPremiumStatus f st uid = (let (d, st1) = getUserDataInternal f st uid in (isPremium d, st1))"

definition updateUserTime :: "redis_faults \<Rightarrow> quota_store \<Rightarrow> userId \<Rightarrow> int \<Rightarrow> quota_store" where
  "updateUserTime f st uid minutesUsed =
     (let (d, st1) = getUserDataInternal f st uid;
          newTime = max 0 (remainingMinutes d - minutesUsed)
      in saveUserDataInternal f st1 uid (d\<lparr>remainingMinutes := newTime\<rparr>))"

definition setUserTime :: "redis_faults \<Rightarrow> quota_store \<Rightarrow> userId \<Rightarrow> int \<Rightarrow> quota_store" where
  "setUserTime f st uid minutes =
     (let (d, st1) = getUserDataInternal f st uid;
          timeToSet = max 0 minutes
      in saveUserDataInternal f st1 uid (d\<lparr>remainingMinutes := timeToSet\<rparr>))"

definition addUserTime :: "redis_faults \<Rightarrow> quota_store \<Rightarrow> userId \<Rightarrow> int \<Rightarrow> quota_store" where
  "addUserTime f st uid minutesToAdd =
     (let (d, st1) = getUserDataInternal f st uid;
          timeToAdd = max 0 minutesToAdd
      in saveUserDataInternal f st1 uid (d\<lparr>remainingMinutes := remainingMinutes d + timeToAdd\<rparr>))"

text \<open>The balance a fault-free \<open>getUserTime\<close> reads for a user: the stored field, or the
  default when the user or the field is missing.\<close>

definition stored_balance :: "quota_store \<Rightarrow> userId \<Rightarrow> int" where
  "stored_balance st uid =
     (case st uid of None \<Rightarrow> DEFAULT_STARTING_TIME | Some j \<Rightarrow> remainingMinutes (parse_doc j))"

definition no_faults :: redis_faults where
  "no_faults = \<lparr>get_fails = False, init_fails = False, save_fails = False\<rparr>"


section \<open>Elapsed time\<close>

text \<open>\<open>Math.ceil(elapsedMs / (60 * 1000))\<close> on the integer millisecond difference of two
  \<open>Date.now()\<close> readings.\<close>

definition elapsedMinutes_at :: "int \<Rightarrow> int \<Rightarrow> int" where
  "elapsedMinutes_at start now = \<lceil>real_of_int (now - start) / (60 * 1000)\<rceil>"

section \<open>JavaScript string helpers\<close>

definition truthy :: "string option \<Rightarrow> bool" where
  "truthy v = (case v of None \<Rightarrow> False | Some x \<Rightarrow> x \<noteq> [])"

definition to_lower :: "char \<Rightarrow> char" where
  "to_lower c = (let n = (of_char c :: nat) in if 65 \<le> n \<and> n \<le> 90 then char_of (n + 32) else c)"

definition ends_with :: "string \<Rightarrow> string \<Rightarrow> bool" where
  "ends_with suf x = (length suf \<le> length x \<and> drop (length x - length suf) x = suf)"

text \<open>A regular expression \<open>/\.(e1|e2|...)$/i\<close>.\<close>

definition has_extension :: "string list \<Rightarrow> string \<Rightarrow> bool" where
  "has_extension exts u = list_ex (\<lambda>e. ends_with (CHR ''.'' # e) (map to_lower u)) exts"

fun indexOf_from :: "int \<Rightarrow> char \<Rightarrow> string \<Rightarrow> int" where
  "indexOf_from i c [] = - 1"
| "indexOf_from i c (x # xs) = (if x = c then i else indexOf_from (i + 1) c xs)"

definition indexOf :: "string \<Rightarrow> char \<Rightarrow> int" where
  "indexOf x c = indexOf_from 0 c x"

definition lastIndexOf :: "string \<Rightarrow> char \<Rightarrow> int" where
  "lastIndexOf x c = (let i = indexOf (rev x) c in if i < 0 then - 1 else int (length x) - 1 - i)"

definition substring :: "string \<Rightarrow> int \<Rightarrow> int \<Rightarrow> string" where
  "substring x a b =
     (let n = int (length x);
          a' = max 0 (min a n);
          b' = max 0 (min b n);
          lo = min a' b';
          hi = max a' b'
      in take (nat (hi - lo)) (drop (nat lo) x))"

text \<open>Characters stand for code units below 256; \<open>trim\<close> strips the white space
  among them.\<close>

definition is_space :: "char \<Rightarrow> bool" where
  "is_space c = ((of_char c :: nat) \<in> {9, 10, 11, 12, 13, 32, 160})"

definition trim :: "string \<Rightarrow> string" where
  "trim x = rev (dropWhile is_space (rev (dropWhile is_space x)))"

section \<open>Batch commentary (src/llm/client.js)\<close>

datatype json = JNull | JBool bool | JNum int | JStr string | JArr "json list" | JObj "(string \<times> json) list"

fun is_JStr :: "json \<Rightarrow> bool" where
  "is_JStr (JStr _) = True"
| "is_JStr _ = False"

fun str_of :: "json \<Rightarrow> string" where
  "str_of (JStr x) = x"
| "str_of _ = []"

record mediaInfo =
  info_tags :: "string list"
  info_title :: "string option"
  info_flair :: "string option"
  imageAttributes :: "string list"

text \<open>
  \<open>LlmClient.generateBatchCommentary\<close>, reduced to its result \<open>commentaries\<close> (\<open>None\<close> is
  \<open>null\<close>). \<open>JSON_parse\<close> is the platform's \<open>JSON.parse\<close> (\<open>None\<close> when it throws),
  \<open>model_available\<close> says whether \<open>getNextMainModel()\<close> returned a model, and \<open>reply\<close> is
  the text of the model's response (\<open>None\<close> when the API call or \<open>response.text()\<close> throws).
  A session's plugin is never missing (its constructor dereferences it), so that early
  return has no branch here.
\<close>

definition generateBatchCommentary ::
  "(string \<Rightarrow> json option) \<Rightarrow> bool \<Rightarrow> string option \<Rightarrow> mediaInfo list \<Rightarrow> string list option" where
  "generateBatchCommentary JSON_parse model_available reply mediaBatchInfo =
     (if \<not> model_available \<or> mediaBatchInfo = [] then None
      else case reply of
        None \<Rightarrow> None
      | Some rawText \<Rightarrow>
          (let jsonText = trim rawText;
               potentialJson =
                 substring jsonText (indexOf jsonText CHR ''['') (lastIndexOf jsonText CHR '']'' + 1)
           in case JSON_parse potentialJson of
                None \<Rightarrow> None
              | Some (JArr cs) \<Rightarrow> if list_ex (\<lambda>c. \<not> is_JStr c) cs then None else Some (map str_of cs)
              | Some _ \<Rightarrow> None))"

section \<open>Tag-indexed batch fetcher (MediaFetcher.fetchMediaBatch)\<close>

text \<open>A post of the tag-indexed source; \<open>score\<close> holds \<open>parseInt(post.score, 10)\<close>, with
  \<open>None\<close> for \<open>NaN\<close>, and an empty \<open>file_url\<close> stands for a missing one.\<close>

record post =
  post_id :: string
  file_url :: string
  score :: "int option"
  tags :: "string list"
  title :: "string option"
  flair :: "string option"

record media =
  url :: string
  post :: post

definition isDirectMediaUrl :: "string \<Rightarrow> bool" where
  "isDirectMediaUrl u =
     (u \<noteq> [] \<and> has_extension [''jpeg'', ''jpg'', ''gif'', ''png'', ''webp'', ''mp4'', ''webm''] u)"

definition MAX_FETCH_PAGE :: nat where
  "MAX_FETCH_PAGE = 10"

text \<open>\<open>rule34Client.searchPosts(tags, 100, pid)\<close>: \<open>None\<close> is \<open>null\<close> (no tags, or a failed
  request); \<open>api\<close> is the remote service.\<close>

definition searchPosts :: "(nat \<Rightarrow> post list option) \<Rightarrow> string list \<Rightarrow> nat \<Rightarrow> post list option" where
  "searchPosts api tgs pid = (if tgs = [] then None else api pid)"

text \<open>The \<open>do ... while (attemptedPages.has(randomPageId))\<close> loop. The successive values of
  \<open>Math.random()\<close> are a list of draws; the loop has no bound of its own, so running out
  of draws (\<open>None\<close>) stands for a loop that does not stop.\<close>

fun draw_page :: "nat list \<Rightarrow> nat list \<Rightarrow> (nat \<times> nat list) option" where
  "draw_page attemptedPages [] = None"
| "draw_page attemptedPages (d # ds) =
     (let randomPageId = d mod (MAX_FETCH_PAGE + 1)
      in if randomPageId \<in> set attemptedPages then draw_page attemptedPages ds
         else Some (randomPageId, ds))"

definition suitable_for_batch :: "post \<Rightarrow> bool" where
  "suitable_for_batch p =
     (file_url p \<noteq> [] \<and> isDirectMediaUrl (file_url p) \<and>
      (case score p of None \<Rightarrow> False | Some n \<Rightarrow> n > 100))"

text \<open>The \<open>for (const post of suitablePosts)\<close> loop.\<close>

fun add_unique :: "string set \<Rightarrow> nat \<Rightarrow> post list \<Rightarrow> media list \<Rightarrow> media list" where
  "add_unique postedMediaUrls batchSize [] found = found"
| "add_unique postedMediaUrls batchSize (p # ps) found =
     (if length found \<ge> batchSize then found
      else if file_url p \<notin> postedMediaUrls \<and> \<not> list_ex (\<lambda>item. url item = file_url p) found
           then add_unique postedMediaUrls batchSize ps (found @ [\<lparr>url = file_url p, post = p\<rparr>])
           else add_unique postedMediaUrls batchSize ps found)"

text \<open>The \<open>while\<close> loop of \<open>fetchMediaBatch\<close>. The result carries, beside the batch, the
  pages requested from the service in order and the unused draws.\<close>

function fetch_loop ::
  "(nat \<Rightarrow> post list option) \<Rightarrow> string list \<Rightarrow> string set \<Rightarrow> nat \<Rightarrow> nat \<Rightarrow>
   nat list \<Rightarrow> nat list \<Rightarrow> media list \<Rightarrow> nat \<Rightarrow> (media list \<times> nat list \<times> nat list) option" where
  "fetch_loop api tgs postedMediaUrls batchSize maxPageAttempts draws attemptedPages found currentAttempts =
     (if length found < batchSize \<and> currentAttempts < maxPageAttempts
         \<and> length attemptedPages \<le> MAX_FETCH_PAGE + 1
      then
        (if length attemptedPages \<ge> MAX_FETCH_PAGE + 1 then Some (found, attemptedPages, draws)
         else case draw_page attemptedPages draws of
           None \<Rightarrow> None
         | Some (randomPageId, draws') \<Rightarrow>
             (case searchPosts api tgs randomPageId of
                None \<Rightarrow>
                  fetch_loop api tgs postedMediaUrls batchSize maxPageAttempts draws'
                    (attemptedPages @ [randomPageId]) found (Suc currentAttempts)
              | Some posts \<Rightarrow>
                  fetch_loop api tgs postedMediaUrls batchSize maxPageAttempts draws'
                    (attemptedPages @ [randomPageId])
                    (if posts = [] then found
                     else add_unique postedMediaUrls batchSize (filter suitable_for_batch posts) found)
                    (Suc currentAttempts)))
      else Some (found, attemptedPages, draws))"
  by pat_completeness auto
termination
  by (relation "measure (\<lambda>(api, tgs, posted, batchSize, maxPageAttempts, draws, att, found, cur).
        maxPageAttempts - cur)") auto

declare fetch_loop.simps [simp del]

definition fetchMediaBatch ::
  "(nat \<Rightarrow> post list option) \<Rightarrow> nat list \<Rightarrow> string \<Rightarrow> string list \<Rightarrow> string set \<Rightarrow> nat \<Rightarrow> nat \<Rightarrow>
   (media list \<times> nat list \<times> nat list) option" where
  "fetchMediaBatch api draws characterType tgs postedMediaUrls batchSize maxPageAttempts =
     (if characterType \<noteq> ''fictional'' then Some ([], [], draws)
      else fetch_loop api tgs postedMediaUrls batchSize maxPageAttempts draws [] [] 0)"

section \<open>Session objects (src/sessions/Session.js)\<close>

record characterPlugin =
  characterName :: string
  plugin_characterType :: "string option"
  subreddits :: "string list option"
  plugin_tags :: "string list option"

text \<open>A post of the cursor-based source. \<open>gallery_urls\<close> is present when the post has both
  \<open>gallery_data\<close> and \<open>media_metadata\<close>; it lists, per gallery item, the unescaped
  \<open>media_metadata[id]?.s?.u\<close> (\<open>None\<close> when a link of that chain is missing).\<close>

record reddit_post =
  r_id :: string
  r_url :: string
  r_title :: "string option"
  r_flair :: "string option"
  r_score :: int
  r_subreddit :: string
  is_self :: bool
  stickied :: bool
  is_gallery :: bool
  gallery_urls :: "string option list option"

record pool_item =
  item_url :: string
  item_post :: reddit_post

record fetchState =
  after :: "string option"
  isFetching :: bool
  allFetched :: bool
  currentPage :: nat

text \<open>What \<open>getSubredditTopPosts\<close> settles with: a rejection, \<open>null\<close>, or a page with its
  next cursor.\<close>

datatype reddit_result = Rejected | Null | Page "reddit_post list" "string option"

text \<open>A page request sent to the cursor-based source: subreddit and \<open>after\<close> cursor.\<close>

datatype request = TopPosts string "string option"

type_synonym timer = nat
type_synonym shardId = nat
type_synonym sessionId = nat
type_synonym messageId = nat

record session =
  session_id :: sessionId
  userId :: userId
  plugin :: characterPlugin
  characterType :: string
  durationMinutes :: "int option"
  personalization :: string
  useProfileSummary :: bool
  startTime :: int
  isActive :: bool
  dmChannelId :: "string option"
  actionLoopTimerId :: "timer option"
  sessionEndTimerId :: "timer option"
  postedMediaUrls :: "string set"
  postCycleCount :: nat
  currentMediaMessageId :: "messageId option"
  currentCommentaryMessageId :: "messageId option"
  triggeredTags :: "string set"
  lastSentMediaInfo :: "media option"
  mediaBatchQueue :: "media list"
  commentaryQueue :: "string list"
  redditPostsPool :: "pool_item list"
  redditFetchState :: "string \<rightharpoonup> fetchState"
  sourceList :: "string list"
  currentRule34Tags :: "string list"

text \<open>The constructor; \<open>sid\<close> is the fresh \<open>crypto.randomUUID()\<close> and \<open>now\<close> the reading of
  \<open>Date.now()\<close>.\<close>

definition new_Session ::
  "sessionId \<Rightarrow> int \<Rightarrow> userId \<Rightarrow> characterPlugin \<Rightarrow> int option \<Rightarrow> string \<Rightarrow> bool \<Rightarrow> session" where
  "new_Session sid now uid characterPlugin duration notes useSummary =
     (let ctype = (if truthy (plugin_characterType characterPlugin)
                   then the (plugin_characterType characterPlugin) else ''fictional'');
          srcs = (if ctype = ''real''
                  then (case subreddits characterPlugin of None \<Rightarrow> [] | Some l \<Rightarrow> l)
                  else (case plugin_tags characterPlugin of None \<Rightarrow> [] | Some l \<Rightarrow> l))
      in \<lparr>session_id = sid, userId = uid, plugin = characterPlugin, characterType = ctype,
          durationMinutes = duration, personalization = notes, useProfileSummary = useSummary,
          startTime = now, isActive = True, dmChannelId = None, actionLoopTimerId = None,
          sessionEndTimerId = None, postedMediaUrls = {}, postCycleCount = 0,
          currentMediaMessageId = None, currentCommentaryMessageId = None, triggeredTags = {},
          lastSentMediaInfo = None, mediaBatchQueue = [], commentaryQueue = [],
          redditPostsPool = [], redditFetchState = Map.empty, sourceList = srcs,
          currentRule34Tags = (if ctype = ''fictional'' then srcs else [])\<rparr>)"

subsection \<open>Paginated source: fetchNextRedditPage\<close>

definition isSuitableRedditMediaPost :: "reddit_post \<Rightarrow> bool" where
  "isSuitableRedditMediaPost p =
     (if is_self p \<or> stickied p \<or> is_gallery p then False
      else r_url p \<noteq> [] \<and> has_extension [''jpeg'', ''jpg'', ''gif'', ''png'', ''webp''] (r_url p))"

definition items_of_post :: "reddit_post \<Rightarrow> pool_item list" where
  "items_of_post p =
     (if is_gallery p \<and> gallery_urls p \<noteq> None
      then map (\<lambda>u. \<lparr>item_url = the u, item_post = p\<rparr>) (filter truthy (the (gallery_urls p)))
      else if isSuitableRedditMediaPost p then [\<lparr>item_url = r_url p, item_post = p\<rparr>]
      else [])"

text \<open>
  \<open>fetchNextRedditPage\<close> runs in two parts. \<open>fetchNextRedditPage_issue\<close> is the synchronous
  part: the guards, \<open>isFetching = true\<close> and the page request; it yields the request sent,
  or \<open>None\<close> where the source returns \<open>false\<close>. \<open>fetchNextRedditPage_settle\<close> is the
  \<open>then\<close>/\<open>catch\<close>/\<open>finally\<close> chain run when the request settles. After the session
  ended the state map is empty, so the chain no longer touches the session.
\<close>

definition fetchNextRedditPage_issue :: "string \<Rightarrow> session \<Rightarrow> request option \<times> session" where
  "fetchNextRedditPage_issue subreddit s =
     (if \<not> isActive s \<or> subreddit = [] then (None, s)
      else case redditFetchState s subreddit of
        None \<Rightarrow> (None, s)
      | Some state \<Rightarrow>
          if isFetching state \<or> allFetched state then (None, s)
          else (Some (TopPosts subreddit (after state)),
                s\<lparr>redditFetchState := (redditFetchState s)(subreddit \<mapsto> state\<lparr>isFetching := True\<rparr>)\<rparr>))"

definition fetchNextRedditPage_settle :: "string \<Rightarrow> reddit_result \<Rightarrow> session \<Rightarrow> session" where
  "fetchNextRedditPage_settle subreddit result s =
     (case redditFetchState s subreddit of
        None \<Rightarrow> s
      | Some state \<Rightarrow>
          (case result of
             Rejected \<Rightarrow>
               s\<lparr>redditFetchState := (redditFetchState s)
                    (subreddit \<mapsto> state\<lparr>allFetched := True, isFetching := False\<rparr>)\<rparr>
           | Null \<Rightarrow>
               if \<not> isActive s
               then s\<lparr>redditFetchState := (redditFetchState s)(subreddit \<mapsto> state\<lparr>isFetching := False\<rparr>)\<rparr>
               else s\<lparr>redditFetchState := (redditFetchState s)
                      (subreddit \<mapsto> state\<lparr>allFetched := True, isFetching := False\<rparr>)\<rparr>
           | Page posts next \<Rightarrow>
               if \<not> isActive s
               then s\<lparr>redditFetchState := (redditFetchState s)(subreddit \<mapsto> state\<lparr>isFetching := False\<rparr>)\<rparr>
               else if posts = []
               then s\<lparr>redditFetchState := (redditFetchState s)
                      (subreddit \<mapsto> state\<lparr>allFetched := True, isFetching := False\<rparr>)\<rparr>
               else s\<lparr>redditPostsPool := redditPostsPool s @ concat (map items_of_post posts),
                      redditFetchState := (redditFetchState s)
                        (subreddit \<mapsto> state\<lparr>after := next, currentPage := currentPage state + 1,
                            allFetched := (allFetched state \<or> \<not> truthy next),
                            isFetching := False\<rparr>)\<rparr>))"

text \<open>The awaited call (\<open>isBackground = false\<close>): request and settlement in one.\<close>

definition fetchNextRedditPage :: "reddit_result \<Rightarrow> string \<Rightarrow> session \<Rightarrow> bool \<times> session" where
  "fetchNextRedditPage result subreddit s =
     (case fetchNextRedditPage_issue subreddit s of
        (None, s') \<Rightarrow> (False, s')
      | (Some rq, s') \<Rightarrow> (True, fetchNextRedditPage_settle subreddit result s'))"

text \<open>The initialisation of the per-source state in \<open>startTimers\<close>.\<close>

definition initRedditFetchState :: "session \<Rightarrow> session" where
  "initRedditFetchState s =
     (if characterType s = ''real'' \<and> sourceList s \<noteq> []
      then s\<lparr>redditFetchState :=
               (\<lambda>sub. if sub \<in> set (sourceList s)
                       then Some \<lparr>after = None, isFetching = False, allFetched = False, currentPage = 0\<rparr>
                       else redditFetchState s sub)\<rparr>
      else s)"

text \<open>The fields \<open>endSession\<close> clears on the session object.\<close>

definition end_cleanup :: "session \<Rightarrow> session" where
  "end_cleanup s = s\<lparr>isActive := False, postedMediaUrls := {}, currentMediaMessageId := None,
     currentCommentaryMessageId := None, redditPostsPool := [], redditFetchState := Map.empty,
     mediaBatchQueue := [], commentaryQueue := [], triggeredTags := {}, lastSentMediaInfo := None\<rparr>"

text \<open>The life of a session's sources as events: refills requested, requests settling, and
  the end of the session. \<open>run_fetch_events\<close> collects the page requests sent.\<close>

datatype fetch_event = Refill string | Settles string reddit_result | Ends

fun run_fetch_events :: "fetch_event list \<Rightarrow> session \<Rightarrow> request list \<times> session" where
  "run_fetch_events [] s = ([], s)"
| "run_fetch_events (Refill subreddit # evs) s =
     (case fetchNextRedditPage_issue subreddit s of
        (None, s') \<Rightarrow> run_fetch_events evs s'
      | (Some rq, s') \<Rightarrow> (let (rqs, s'') = run_fetch_events evs s' in (rq # rqs, s'')))"
| "run_fetch_events (Settles subreddit result # evs) s =
     run_fetch_events evs (fetchNextRedditPage_settle subreddit result s)"
| "run_fetch_events (Ends # evs) s = run_fetch_events evs (end_cleanup s)"

fun request_source :: "request \<Rightarrow> string" where
  "request_source (TopPosts subreddit cursor) = subreddit"

section \<open>Shard-local state, shared store and effects\<close>

text \<open>
  One process (shard) holds its Session objects (a heap, by session id), the map
  \<open>localActiveSessions\<close> from users to them, and a trace of the calls it made on its
  collaborators. Redis is shared by all shards: the ownership registry
  (\<open>user_shard:<id>\<close>, holding the decimal shard id) and the quota documents.
\<close>

datatype effect =
    ClearTimeout timer
  | SetTimeout timer
  | DeductMinutes userId int
  | SummaryRegeneration userId
  | RegistryDelete userId
  | SendNotice
  | EditCommentary messageId string
  | SendCommentary string
  | EditMedia messageId string
  | SendMedia string
  | RequestPage request

record shard_state =
  sessions :: "sessionId \<rightharpoonup> session"
  localActiveSessions :: "userId \<rightharpoonup> sessionId"
  trace :: "effect list"

record redis =
  registry :: "userId \<rightharpoonup> shardId"
  quota :: quota_store

type_synonym world = "shard_state \<times> redis"

subsection \<open>SessionManager.deleteSession\<close>

text \<open>A call either returns a value or throws; for an \<open>async\<close> function, \<open>Threw\<close> is the
  rejection of its promise.\<close>

datatype 'a outcome = Returned 'a | Threw

text \<open>The static method of the class \<open>SessionManager\<close>: it drops the user from the shard's
  local map and asks Redis to delete the user's registry entry.\<close>

definition deleteSession :: "bool \<Rightarrow> userId \<Rightarrow> world \<Rightarrow> world" where
  "deleteSession del_fails uid w =
     (case w of (l, r) \<Rightarrow>
        (l\<lparr>localActiveSessions := (localActiveSessions l)(uid := None),
           trace := trace l @ [RegistryDelete uid]\<rparr>,
         if del_fails then r else r\<lparr>registry := (registry r)(uid := None)\<rparr>))"

subsection \<open>Session.endSession\<close>

text \<open>
  What the environment decides during one \<open>endSession\<close>: the clock reading and which
  Redis round-trips fail. The calls that \<open>endSession\<close> starts without awaiting them (the
  premium check with the profile summary behind it, and \<open>updateUserTime\<close>) are carried
  out where they are started, in source order, and recorded in the trace;
  \<open>SummaryRegeneration\<close> stands for the summary chain of a premium user.

  The last statement of \<open>endSession\<close> is \<open>SessionManager.deleteSession(this.userId)\<close>,
  where \<open>SessionManager\<close> is the value that \<open>require('./SessionManager')\<close> returned
  while Session.js was loaded (Session.js, line 15). SessionManager.js requires
  Session.js in its first line and assigns \<open>module.exports\<close> in its last one, and
  the event handlers, through which index.js loads the two modules, require
  SessionManager.js first. Session.js is thus loaded while SessionManager.js is still
  in its first line, and the constant it keeps is that module's initial, empty exports
  object, which has no property \<open>deleteSession\<close>. The call therefore throws a
  \<open>TypeError\<close>: on an active session \<open>endSession\<close> starts the premium check and the
  deduction, marks the session inactive, cancels its timers, clears its fields and then
  throws, without reaching the static method \<open>deleteSession\<close>. On a session that is no
  longer active it returns at once.
  (Loaded the other way round, with Session.js first, SessionManager.js would be the
  module holding an empty object, and \<open>new Session\<close> in \<open>createSession\<close> would throw;
  no loader of the program does so.)
\<close>

record end_env =
  end_now :: int
  premium_faults :: redis_faults
  deduct_faults :: redis_faults

definition clear_if_set :: "timer option \<Rightarrow> effect list" where
  "clear_if_set t = (case t of None \<Rightarrow> [] | Some i \<Rightarrow> [ClearTimeout i])"

definition endSession :: "end_env \<Rightarrow> string \<Rightarrow> sessionId \<Rightarrow> world \<Rightarrow> unit outcome \<times> world" where
  "endSession e reason sid w =
     (case w of (l, r) \<Rightarrow>
        (case sessions l sid of
           None \<Rightarrow> (Returned (), w)
         | Some s \<Rightarrow>
             if \<not> isActive s then (Returned (), w)
             else
               (let (premium, q1) = getUserPremiumStatus (premium_faults e) (quota r) (userId s);
                    elapsedMinutes = elapsedMinutes_at (startTime s) (end_now e);
                    q2 = updateUserTime (deduct_faults e) q1 (userId s) elapsedMinutes;
                    fx = (if premium then [SummaryRegeneration (userId s)] else [])
                         @ [DeductMinutes (userId s) elapsedMinutes]
                         @ clear_if_set (actionLoopTimerId s)
                         @ clear_if_set (sessionEndTimerId s)
                in (Threw,
                    (l\<lparr>sessions := (sessions l)(sid \<mapsto> end_cleanup s), trace := trace l @ fx\<rparr>,
                     r\<lparr>quota := q2\<rparr>)))))"

subsection \<open>SessionManager.createSession\<close>

record create_env =
  new_sessionId :: sessionId
  create_now :: int
  registry_get_fails :: bool
  registry_set_fails :: bool
  rollback_env :: end_env

text \<open>
  \<open>createSession\<close> from the reply of its registry lookup on: the refusal, the local
  Session, the registration write and its rollback. The result is the new session (its
  id), or \<open>None\<close> for \<open>null\<close>. The rollback runs in the \<open>catch\<close> block of the
  registration write: what \<open>endSession\<close> throws there leaves \<open>createSession\<close>, and the
  \<open>return null\<close> after it is reached only when \<open>endSession\<close> returns.
\<close>

definition createSession_after_lookup ::
  "create_env \<Rightarrow> shardId \<Rightarrow> userId \<Rightarrow> characterPlugin \<Rightarrow> int option \<Rightarrow> string \<Rightarrow> bool \<Rightarrow>
   shardId option \<Rightarrow> world \<Rightarrow> sessionId option outcome \<times> world" where
  "createSession_after_lookup e currentShardId uid characterPlugin duration notes useSummary existingShardId w =
     (case w of (l, r) \<Rightarrow>
        (case existingShardId of
           Some other \<Rightarrow> (Returned None, w)
         | None \<Rightarrow>
             (let newSession = new_Session (new_sessionId e) (create_now e) uid characterPlugin
                                 duration notes useSummary;
                  l1 = l\<lparr>sessions := (sessions l)(new_sessionId e \<mapsto> newSession),
                         localActiveSessions := (localActiveSessions l)(uid \<mapsto> new_sessionId e)\<rparr>
              in if registry_set_fails e
                 then (case endSession (rollback_env e) ''Redis Registration Failed'' (new_sessionId e)
                              (l1\<lparr>localActiveSessions := (localActiveSessions l1)(uid := None)\<rparr>, r) of
                         (Threw, w') \<Rightarrow> (Threw, w')
                       | (Returned u, w') \<Rightarrow> (Returned None, w'))
                 else (Returned (Some (new_sessionId e)),
                       (l1, r\<lparr>registry := (registry r)(uid \<mapsto> currentShardId)\<rparr>)))))"

text \<open>The whole call on one shard, with nothing else touching Redis in between; \<open>client\<close>
  is the shard id of a valid sharded client.\<close>

definition createSession ::
  "create_env \<Rightarrow> shardId option \<Rightarrow> userId \<Rightarrow> characterPlugin \<Rightarrow> int option \<Rightarrow> string \<Rightarrow> bool \<Rightarrow>
   world \<Rightarrow> sessionId option outcome \<times> world" where
  "createSession e client uid characterPlugin duration notes useSummary w =
     (case client of
        None \<Rightarrow> (Returned None, w)
      | Some currentShardId \<Rightarrow>
          if registry_get_fails e then (Threw, w)
          else createSession_after_lookup e currentShardId uid characterPlugin duration notes
                 useSummary (registry (snd w) uid) w)"

subsection \<open>Several shards on one registry\<close>

text \<open>
  Each shard runs \<open>createSession\<close> for the same user. A shard's call is suspended at its
  two awaited Redis commands, so Redis serves the commands of different shards in any
  order: a schedule names, step by step, the shard whose next command is served.
\<close>

datatype create_pc = Calling | Looked "shardId option" | Finished "sessionId option outcome"

record proc =
  proc_local :: shard_state
  proc_pc :: create_pc

record cluster =
  procs :: "shardId \<Rightarrow> proc"
  shared :: redis

definition create_step ::
  "(shardId \<Rightarrow> create_env) \<Rightarrow> userId \<Rightarrow> characterPlugin \<Rightarrow> shardId \<Rightarrow> cluster \<Rightarrow> cluster" where
  "create_step envs uid characterPlugin i c =
     (case proc_pc (procs c i) of
        Calling \<Rightarrow>
          c\<lparr>procs := (procs c)(i := (procs c i)\<lparr>proc_pc := Looked (registry (shared c) uid)\<rparr>)\<rparr>
      | Looked existingShardId \<Rightarrow>
          (case createSession_after_lookup (envs i) i uid characterPlugin None [] False
                  existingShardId (proc_local (procs c i), shared c) of
             (res, (l', r')) \<Rightarrow>
               c\<lparr>procs := (procs c)(i := \<lparr>proc_local = l', proc_pc = Finished res\<rparr>), shared := r'\<rparr>)
      | Finished res \<Rightarrow> c)"

fun run_schedule ::
  "(shardId \<Rightarrow> create_env) \<Rightarrow> userId \<Rightarrow> characterPlugin \<Rightarrow> shardId list \<Rightarrow> cluster \<Rightarrow> cluster" where
  "run_schedule envs uid characterPlugin [] c = c"
| "run_schedule envs uid characterPlugin (i # sched) c =
     run_schedule envs uid characterPlugin sched (create_step envs uid characterPlugin i c)"

definition succeeded :: "cluster \<Rightarrow> shardId \<Rightarrow> bool" where
  "succeeded c i = (case proc_pc (procs c i) of Finished (Returned (Some sid)) \<Rightarrow> True | _ \<Rightarrow> False)"

text \<open>The Session objects of a user that are active on a shard.\<close>

definition active_session_on :: "cluster \<Rightarrow> shardId \<Rightarrow> userId \<Rightarrow> bool" where
  "active_session_on c i uid =
     (case localActiveSessions (proc_local (procs c i)) uid of
        None \<Rightarrow> False
      | Some sid \<Rightarrow> (case sessions (proc_local (procs c i)) sid of
                      None \<Rightarrow> False
                    | Some s \<Rightarrow> isActive s \<and> userId s = uid))"

section \<open>The action cycle (Session.executeNextActionCycle)\<close>

text \<open>
  What the environment decides during one cycle: clock readings, which collaborator calls
  fail, what the content source and the generative service answer, the values of
  \<open>Math.random()\<close> in the two pool selections (already scaled to indices), and the
  handles of new messages and timers. \<open>fetchedMediaBatch\<close> is what
  \<open>MediaFetcher.fetchMediaBatch\<close> resolved with (\<open>None\<close> for a falsy result).
\<close>

record cycle_env =
  cycle_premium_faults :: redis_faults
  channel_ok :: bool
  now_check :: int
  time_faults :: redis_faults
  ending :: end_env
  fetchedMediaBatch :: "media list option"
  JSON_parse :: "string \<Rightarrow> json option"
  model_available :: bool
  llm_reply :: "string option"
  pool_draws :: "nat \<Rightarrow> nat"
  retry_draws :: "nat \<Rightarrow> nat"
  sync_page :: reddit_result
  single_commentary :: "string option"
  commentary_edit_ok :: bool
  commentary_send_ok :: bool
  new_commentary_id :: messageId
  media_edit_ok :: bool
  media_send_ok :: bool
  new_media_id :: messageId
  new_timer :: timer

definition mapRedditPostToFetchedMedia :: "pool_item \<Rightarrow> media option" where
  "mapRedditPostToFetchedMedia item =
     (if item_url item \<noteq> [] then
        Some \<lparr>url = item_url item,
              post = \<lparr>post_id = r_id (item_post item), file_url = item_url item,
                      score = Some (r_score (item_post item)),
                      tags = filter (\<lambda>t. t \<noteq> []) [r_subreddit (item_post item)],
                      title = (if truthy (r_title (item_post item)) then r_title (item_post item) else None),
                      flair = (if truthy (r_flair (item_post item)) then r_flair (item_post item) else None)\<rparr>\<rparr>
      else None)"

text \<open>The selection loop over the pool: at most \<open>maxAttempts\<close> random picks, the first
  one that maps and was not posted yet.\<close>

function select_loop ::
  "(nat \<Rightarrow> nat) \<Rightarrow> nat \<Rightarrow> nat \<Rightarrow> pool_item list \<Rightarrow> string set \<Rightarrow> media option" where
  "select_loop rnd attempts maxAttempts pool posted =
     (if attempts < maxAttempts \<and> pool \<noteq> [] then
        (case mapRedditPostToFetchedMedia (pool ! (rnd attempts mod length pool)) of
           None \<Rightarrow> select_loop rnd (Suc attempts) maxAttempts pool posted
         | Some mappedPost \<Rightarrow>
             if url mappedPost \<notin> posted then Some mappedPost
             else select_loop rnd (Suc attempts) maxAttempts pool posted)
      else None)"
  by pat_completeness auto
termination
  by (relation "measure (\<lambda>(rnd, attempts, maxAttempts, pool, posted). maxAttempts - attempts)") auto

declare select_loop.simps [simp del]

text \<open>
  \<open>Object.keys\<close> of an object whose keys were inserted in the given order: the keys that
  are array indices (decimal numerals without a leading zero, below \<open>2^32 - 1\<close>) come
  first, in ascending numeric order, and the other keys follow in the order of their
  first insertion.
\<close>

definition is_digit :: "char \<Rightarrow> bool" where
  "is_digit c = (48 \<le> (of_char c :: nat) \<and> (of_char c :: nat) \<le> 57)"

definition decimal_value :: "string \<Rightarrow> int" where
  "decimal_value k = foldl (\<lambda>n c. 10 * n + (int (of_char c) - 48)) 0 k"

definition is_array_index :: "string \<Rightarrow> bool" where
  "is_array_index k =
     (k \<noteq> [] \<and> list_all is_digit k \<and> (if hd k = CHR ''0'' then k = ''0'' else True)
      \<and> decimal_value k < 4294967295)"

definition Object_keys :: "string list \<Rightarrow> string list" where
  "Object_keys inserted =
     (let ks = rev (remdups (rev inserted))
      in sort_key decimal_value (filter is_array_index ks) @ filter (\<lambda>k. \<not> is_array_index k) ks)"

text \<open>\<open>Object.keys(this.redditFetchState)\<close> filtered for sources that may be fetched; the
  keys were inserted in the order of the source list.\<close>

definition subredditsToFetch :: "session \<Rightarrow> string list" where
  "subredditsToFetch s =
     filter (\<lambda>sub. case redditFetchState s sub of
                      None \<Rightarrow> False
                    | Some state \<Rightarrow> \<not> allFetched state \<and> \<not> isFetching state)
       (Object_keys (sourceList s))"

definition request_effects :: "request option \<Rightarrow> effect list" where
  "request_effects rq = (case rq of None \<Rightarrow> [] | Some q \<Rightarrow> [RequestPage q])"

text \<open>The branch for \<open>characterType === 'real'\<close>: one item from the pool, with one awaited
  refill when the pool gives none, its commentary, and the background refill (only its
  request is part of this cycle). Yields \<open>fetchedItem\<close> and \<open>llmResult.commentary\<close>.\<close>

definition real_path :: "cycle_env \<Rightarrow> session \<Rightarrow> media option \<times> string option \<times> session \<times> effect list" where
  "real_path e s =
     (let maxAttempts = length (redditPostsPool s) + 5;
          first = select_loop (pool_draws e) 0 maxAttempts (redditPostsPool s) (postedMediaUrls s);
          (candidate, s1, fx1) =
            (if first \<noteq> None then (first, s, [])
             else case subredditsToFetch s of
               [] \<Rightarrow> (None, s, [])
             | subToFetchSync # others \<Rightarrow>
                 (let rq = fst (fetchNextRedditPage_issue subToFetchSync s);
                      (fetchSuccess, s') = fetchNextRedditPage (sync_page e) subToFetchSync s
                  in (if fetchSuccess
                      then select_loop (retry_draws e) 0 maxAttempts (redditPostsPool s') (postedMediaUrls s')
                      else None,
                      s', request_effects rq)));
          llmResult = (if candidate \<noteq> None then single_commentary e else None);
          (s2, fx2) =
            (case subredditsToFetch s1 of
               [] \<Rightarrow> (s1, [])
             | subToFetchAsync # others \<Rightarrow>
                 (snd (fetchNextRedditPage_issue subToFetchAsync s1),
                  request_effects (fst (fetchNextRedditPage_issue subToFetchAsync s1))))
      in (candidate, llmResult, s2, fx1 @ fx2))"

definition mediaBatchInfo_of :: "media list \<Rightarrow> mediaInfo list" where
  "mediaBatchInfo_of q =
     map (\<lambda>item. \<lparr>info_tags = tags (post item),
                   info_title = (if truthy (title (post item)) then title (post item) else None),
                   info_flair = (if truthy (flair (post item)) then flair (post item) else None),
                   imageAttributes = []\<rparr>) q"

text \<open>The branch for \<open>characterType === 'fictional'\<close>: the refill of both queues.\<close>

definition fictional_path :: "cycle_env \<Rightarrow> session \<Rightarrow> session" where
  "fictional_path e s =
     (let fetched = (case fetchedMediaBatch e of None \<Rightarrow> [] | Some b \<Rightarrow> b)
      in if fetched \<noteq> [] then
           (let s1 = s\<lparr>mediaBatchQueue := fetched\<rparr>;
                batchLlmResult = generateBatchCommentary (JSON_parse e) (model_available e) (llm_reply e)
                                   (mediaBatchInfo_of (mediaBatchQueue s1))
            in case batchLlmResult of
                 Some commentaries \<Rightarrow>
                   if length commentaries = length (mediaBatchQueue s1)
                   then s1\<lparr>commentaryQueue := commentaries\<rparr>
                   else s1\<lparr>mediaBatchQueue := [], commentaryQueue := []\<rparr>
               | None \<Rightarrow> s1\<lparr>mediaBatchQueue := [], commentaryQueue := []\<rparr>)
         else s)"

text \<open>The refill: the \<open>else\<close> branch of the queue check up to the dequeue.\<close>

definition refill :: "cycle_env \<Rightarrow> session \<Rightarrow> media option \<times> string option \<times> session \<times> effect list" where
  "refill e s =
     (let s0 = s\<lparr>mediaBatchQueue := [], commentaryQueue := []\<rparr>
      in if characterType s0 = ''real'' then real_path e s0
         else if characterType s0 = ''fictional'' then (None, None, fictional_path e s0, [])
         else (None, None, s0, []))"

text \<open>The queue check with its two ways to an item. Yields \<open>mediaToSend\<close> and
  \<open>commentaryToSend\<close> (\<open>None\<close> for \<open>null\<close>).\<close>

definition cycle_select :: "cycle_env \<Rightarrow> session \<Rightarrow> media option \<times> string option \<times> session \<times> effect list" where
  "cycle_select e s =
     (if commentaryQueue s \<noteq> [] \<and> mediaBatchQueue s \<noteq> [] then
        (Some (hd (mediaBatchQueue s)), Some (hd (commentaryQueue s)),
         s\<lparr>mediaBatchQueue := tl (mediaBatchQueue s), commentaryQueue := tl (commentaryQueue s)\<rparr>, [])
      else
        (case refill e s of (fetchedItem, llmResult, s1, fx) \<Rightarrow>
           if fetchedItem \<noteq> None \<and> truthy llmResult then (fetchedItem, llmResult, s1, fx)
           else if commentaryQueue s1 \<noteq> [] \<and> mediaBatchQueue s1 \<noteq> [] then
             (Some (hd (mediaBatchQueue s1)), Some (hd (commentaryQueue s1)),
              s1\<lparr>mediaBatchQueue := tl (mediaBatchQueue s1), commentaryQueue := tl (commentaryQueue s1)\<rparr>, fx)
           else (None, None, s1, fx)))"

definition startActionLoopTimer :: "cycle_env \<Rightarrow> session \<Rightarrow> session \<times> effect list" where
  "startActionLoopTimer e s =
     (if \<not> isActive s then (s, [])
      else (s\<lparr>actionLoopTimerId := Some (new_timer e)\<rparr>,
            clear_if_set (actionLoopTimerId s) @ [SetTimeout (new_timer e)]))"

text \<open>Step 4: edit the commentary message in place, or send a new one.\<close>

definition deliver_commentary :: "cycle_env \<Rightarrow> string \<Rightarrow> session \<Rightarrow> session \<times> effect list" where
  "deliver_commentary e commentaryToSend s =
     (if commentaryToSend \<noteq> [] \<and> isActive s then
        (let (s1, fx1) =
               (case currentCommentaryMessageId s of
                  None \<Rightarrow> (s, [])
                | Some mid \<Rightarrow>
                    if commentary_edit_ok e then (s, [EditCommentary mid commentaryToSend])
                    else (s\<lparr>currentCommentaryMessageId := None\<rparr>, []))
         in if currentCommentaryMessageId s1 = None \<and> isActive s1 then
              (if commentary_send_ok e
               then (s1\<lparr>currentCommentaryMessageId := Some (new_commentary_id e)\<rparr>,
                     fx1 @ [SendCommentary commentaryToSend])
               else (s1, fx1))
            else (s1, fx1))
      else (s, []))"

text \<open>Step 5: edit the media message in place, or send a new one; a delivered locator
  joins the posted set.\<close>

definition deliver_media :: "cycle_env \<Rightarrow> media \<Rightarrow> session \<Rightarrow> session \<times> effect list" where
  "deliver_media e mediaToSend s =
     (if url mediaToSend \<noteq> [] \<and> isActive s then
        (let (s1, fx1, edited) =
               (case currentMediaMessageId s of
                  None \<Rightarrow> (s, [], False)
                | Some mid \<Rightarrow>
                    if media_edit_ok e then (s, [EditMedia mid (url mediaToSend)], True)
                    else (s\<lparr>currentMediaMessageId := None\<rparr>, [], False));
             (s2, fx2, sent) =
               (if currentMediaMessageId s1 = None \<and> isActive s1 then
                  (if media_send_ok e
                   then (s1\<lparr>currentMediaMessageId := Some (new_media_id e)\<rparr>,
                         [SendMedia (url mediaToSend)], True)
                   else (s1, [], False))
                else (s1, [], False))
         in (if edited \<or> sent
             then s2\<lparr>postedMediaUrls := insert (url mediaToSend) (postedMediaUrls s2)\<rparr>
             else s2,
             fx1 @ fx2))
      else (s, []))"

text \<open>The cycle after the time check: from clearing the pending timer to rescheduling.\<close>

definition cycle_body :: "cycle_env \<Rightarrow> session \<Rightarrow> session \<times> effect list" where
  "cycle_body e s =
     (let fx0 = clear_if_set (actionLoopTimerId s);
          s1 = s\<lparr>postCycleCount := postCycleCount s + 1\<rparr>
      in case cycle_select e s1 of (mediaToSend, commentaryToSend, s2, fx1) \<Rightarrow>
           if mediaToSend = None \<or> \<not> truthy commentaryToSend then
             (let (s3, fx2) = startActionLoopTimer e s2 in (s3, fx0 @ fx1 @ fx2))
           else
             (let s3 = s2\<lparr>lastSentMediaInfo := mediaToSend\<rparr>;
                  (s4, fx2) = deliver_commentary e (the commentaryToSend) s3;
                  (s5, fx3) = deliver_media e (the mediaToSend) s4;
                  (s6, fx4) = startActionLoopTimer e s5
              in (s6, fx0 @ fx1 @ fx2 @ fx3 @ fx4)))"

text \<open>
  The whole cycle. Both calls of \<open>endSession\<close> stand outside the \<open>try\<close> block of the cycle
  (the one for a channel that cannot be fetched is in the \<open>catch\<close> block of
  \<open>getDmChannel\<close>), so what \<open>endSession\<close> throws rejects the promise of the cycle. What
  the runtime does with a rejection that nobody handles is outside this model.
\<close>

definition executeNextActionCycle :: "cycle_env \<Rightarrow> sessionId \<Rightarrow> world \<Rightarrow> unit outcome \<times> world" where
  "executeNextActionCycle e sid w =
     (case w of (l, r) \<Rightarrow>
        (case sessions l sid of
           None \<Rightarrow> (Returned (), w)
         | Some s \<Rightarrow>
             if \<not> isActive s then (Returned (), w)
             else
               (let (isPremium, q1) = getUserPremiumStatus (cycle_premium_faults e) (quota r) (userId s);
                    r1 = r\<lparr>quota := q1\<rparr>
                in case dmChannelId s of
                     None \<Rightarrow> (Returned (), (l, r1))
                   | Some channel \<Rightarrow>
                       if \<not> channel_ok e
                       then endSession (ending e) ''DM Channel Fetch Failed'' sid (l, r1)
                       else
                         (let elapsedMinutes = elapsedMinutes_at (startTime s) (now_check e);
                              (remainingTime, q2) = getUserTime (time_faults e) (quota r1) (userId s);
                              r2 = r1\<lparr>quota := q2\<rparr>
                          in if elapsedMinutes \<ge> remainingTime
                             then endSession (ending e) ''Ran out of time'' sid
                                    (l\<lparr>trace := trace l @ [SendNotice]\<rparr>, r2)
                             else (case cycle_body e s of (s', fx) \<Rightarrow>
                                     (Returned (),
                                      (l\<lparr>sessions := (sessions l)(sid \<mapsto> s'), trace := trace l @ fx\<rparr>, r2)))))))"

section \<open>Observations\<close>

subsection \<open>On traces and worlds\<close>

fun is_deduct :: "effect \<Rightarrow> bool" where
  "is_deduct (DeductMinutes u n) = True"
| "is_deduct _ = False"

fun is_registry_delete :: "effect \<Rightarrow> bool" where
  "is_registry_delete (RegistryDelete u) = True"
| "is_registry_delete _ = False"

fun is_clear :: "effect \<Rightarrow> bool" where
  "is_clear (ClearTimeout t) = True"
| "is_clear _ = False"

fun is_notice :: "effect \<Rightarrow> bool" where
  "is_notice SendNotice = True"
| "is_notice _ = False"

fun is_delivery :: "effect \<Rightarrow> bool" where
  "is_delivery (EditCommentary m c) = True"
| "is_delivery (SendCommentary c) = True"
| "is_delivery (EditMedia m u) = True"
| "is_delivery (SendMedia u) = True"
| "is_delivery _ = False"

fun is_set_timeout :: "effect \<Rightarrow> bool" where
  "is_set_timeout (SetTimeout t) = True"
| "is_set_timeout _ = False"

definition session_active :: "world \<Rightarrow> sessionId \<Rightarrow> bool" where
  "session_active w sid = (case sessions (fst w) sid of None \<Rightarrow> False | Some s \<Rightarrow> isActive s)"

text \<open>The timers an active session holds: the timer of the action loop, then the timer
  of the session's end, each if it is set.\<close>

definition pending_timers :: "world \<Rightarrow> sessionId \<Rightarrow> timer list" where
  "pending_timers w sid =
     (case sessions (fst w) sid of
        None \<Rightarrow> []
      | Some s \<Rightarrow>
          if isActive s
          then (case (actionLoopTimerId s, sessionEndTimerId s) of
                  (None, None) \<Rightarrow> []
                | (Some a, None) \<Rightarrow> [a]
                | (None, Some b) \<Rightarrow> [b]
                | (Some a, Some b) \<Rightarrow> [a, b])
          else [])"

subsection \<open>On the action cycle\<close>


definition sel_media :: "media option \<times> string option \<times> session \<times> effect list \<Rightarrow> media option" where
  "sel_media x = fst x"

definition sel_commentary :: "media option \<times> string option \<times> session \<times> effect list \<Rightarrow> string option" where
  "sel_commentary x = fst (snd x)"

definition sel_session :: "media option \<times> string option \<times> session \<times> effect list \<Rightarrow> session" where
  "sel_session x = fst (snd (snd x))"

definition fetched_batch :: "cycle_env \<Rightarrow> media list" where
  "fetched_batch e = (case fetchedMediaBatch e of None \<Rightarrow> [] | Some b \<Rightarrow> b)"







subsection \<open>On the paginated sources\<close>

definition exhausted :: "session \<Rightarrow> string \<Rightarrow> bool" where
  "exhausted s sub = (case redditFetchState s sub of None \<Rightarrow> False | Some state \<Rightarrow> allFetched state)"

text \<open>A source that can no longer be fetched: exhausted, or dropped with the session's end.\<close>

definition closed_source :: "session \<Rightarrow> string \<Rightarrow> bool" where
  "closed_source s sub = (case redditFetchState s sub of None \<Rightarrow> True | Some state \<Rightarrow> allFetched state)"

definition requests_to :: "string \<Rightarrow> request list \<Rightarrow> request list" where
  "requests_to sub rqs = filter (\<lambda>rq. request_source rq = sub) rqs"

definition requested_pages :: "(media list \<times> nat list \<times> nat list) option \<Rightarrow> nat list" where
  "requested_pages res = (case res of None \<Rightarrow> [] | Some (batch, pages, rest) \<Rightarrow> pages)"

section \<open>Example values\<close>

text \<open>A session of user \<open>u1\<close>, started at time 0 on a tag-indexed character, alone on
  its shard; the user has no quota document yet, so the default of 20 minutes applies.
  The quiet environments have no fault and no content.\<close>

definition example_plugin :: characterPlugin where
  "example_plugin = \<lparr>characterName = ''Tracer'', plugin_characterType = Some ''fictional'',
     subreddits = None, plugin_tags = Some [''tracer'']\<rparr>"

definition example_session :: session where
  "example_session = (new_Session 7 0 ''u1'' example_plugin None [] False)\<lparr>dmChannelId := Some ''dm1''\<rparr>"

definition example_shard :: shard_state where
  "example_shard = \<lparr>sessions = [7 \<mapsto> example_session], localActiveSessions = [''u1'' \<mapsto> 7], trace = []\<rparr>"

definition example_redis :: redis where
  "example_redis = \<lparr>registry = [''u1'' \<mapsto> 0], quota = Map.empty\<rparr>"

definition empty_shard :: shard_state where
  "empty_shard = \<lparr>sessions = Map.empty, localActiveSessions = Map.empty, trace = []\<rparr>"

definition empty_redis :: redis where
  "empty_redis = \<lparr>registry = Map.empty, quota = Map.empty\<rparr>"

definition quiet_end :: "int \<Rightarrow> end_env" where
  "quiet_end now = \<lparr>end_now = now, premium_faults = no_faults, deduct_faults = no_faults\<rparr>"

definition quiet_cycle :: "int \<Rightarrow> int \<Rightarrow> cycle_env" where
  "quiet_cycle now_c now_e = \<lparr>cycle_premium_faults = no_faults, channel_ok = True, now_check = now_c,
     time_faults = no_faults, ending = quiet_end now_e, fetchedMediaBatch = None,
     JSON_parse = (\<lambda>x. None), model_available = True, llm_reply = None,
     pool_draws = (\<lambda>k. 0), retry_draws = (\<lambda>k. 0), sync_page = Null, single_commentary = None,
     commentary_edit_ok = True, commentary_send_ok = True, new_commentary_id = 1,
     media_edit_ok = True, media_send_ok = True, new_media_id = 2, new_timer = 3\<rparr>"

text \<open>The same session holding its two timers; a session started at clock reading 90000;
  a user with 100 minutes left; and an end during which the quota read of the deduction
  fails, at clock reading 150000.\<close>

definition timed_session :: session where
  "timed_session = example_session\<lparr>actionLoopTimerId := Some 5, sessionEndTimerId := Some 6\<rparr>"

definition timed_shard :: shard_state where
  "timed_shard = \<lparr>sessions = [7 \<mapsto> timed_session], localActiveSessions = [''u1'' \<mapsto> 7], trace = []\<rparr>"

definition set_back_session :: session where
  "set_back_session = new_Session 7 90000 ''u1'' example_plugin None [] False"

definition set_back_shard :: shard_state where
  "set_back_shard = \<lparr>sessions = [7 \<mapsto> set_back_session], localActiveSessions = [''u1'' \<mapsto> 7], trace = []\<rparr>"

definition rich_redis :: redis where
  "rich_redis = \<lparr>registry = [''u1'' \<mapsto> 0],
     quota = [''u1'' \<mapsto> stringify (defaultData\<lparr>remainingMinutes := 100\<rparr>)]\<rparr>"

definition unread_end :: end_env where
  "unread_end = \<lparr>end_now = 150000, premium_faults = no_faults,
     deduct_faults = no_faults\<lparr>get_fails := True\<rparr>\<rparr>"

definition failing_registration :: create_env where
  "failing_registration = \<lparr>new_sessionId = 8, create_now = 1000, registry_get_fails = False,
     registry_set_fails = True, rollback_env = quiet_end 1250\<rparr>"

text \<open>Two shards about to call \<open>createSession\<close> for user \<open>u1\<close>, who has no session
  anywhere; no Redis command fails.\<close>

definition racing_envs :: "shardId \<Rightarrow> create_env" where
  "racing_envs i = \<lparr>new_sessionId = 100 + i, create_now = 1000, registry_get_fails = False,
     registry_set_fails = False, rollback_env = quiet_end 1000\<rparr>"

definition idle_cluster :: cluster where
  "idle_cluster = \<lparr>procs = (\<lambda>i. \<lparr>proc_local = empty_shard, proc_pc = Calling\<rparr>), shared = empty_redis\<rparr>"

text \<open>A batch of three media items answered by a reply holding two commentaries, the same
  reply for a batch of two, and a session with two queued pairs.\<close>

definition example_media :: "string \<Rightarrow> media" where
  "example_media u = \<lparr>url = u, post = \<lparr>post_id = ''p'', file_url = u, score = Some 500,
     tags = [''tracer''], title = None, flair = None\<rparr>\<rparr>"

definition three_media :: "media list" where
  "three_media = [example_media ''a.png'', example_media ''b.png'', example_media ''c.png'']"

definition quoted :: "string \<Rightarrow> string" where
  "quoted x = CHR 0x22 # x @ [CHR 0x22]"

definition two_commentaries_reply :: string where
  "two_commentaries_reply = '' ['' @ quoted ''first'' @ '', '' @ quoted ''second'' @ ''] ''"

definition example_JSON_parse :: "string \<Rightarrow> json option" where
  "example_JSON_parse x =
     (if x = ''['' @ quoted ''first'' @ '', '' @ quoted ''second'' @ '']''
      then Some (JArr [JStr ''first'', JStr ''second'']) else None)"

definition short_reply_cycle :: cycle_env where
  "short_reply_cycle = (quiet_cycle 1000 1000)\<lparr>fetchedMediaBatch := Some three_media,
     JSON_parse := example_JSON_parse, llm_reply := Some two_commentaries_reply\<rparr>"

definition matching_cycle :: cycle_env where
  "matching_cycle = short_reply_cycle\<lparr>fetchedMediaBatch := Some [example_media ''a.png'', example_media ''b.png'']\<rparr>"




text \<open>A session on the cursor-based source \<open>pics\<close>, before its first page, while the
  page is being fetched, and after the fetch failed; and a tag-indexed service with one
  suitable post, on page 3.\<close>

definition real_plugin :: characterPlugin where
  "real_plugin = \<lparr>characterName = ''Alice'', plugin_characterType = Some ''real'',
     subreddits = Some [''pics''], plugin_tags = None\<rparr>"

definition real_session :: session where
  "real_session = initRedditFetchState (new_Session 9 0 ''u2'' real_plugin None [] False)"

definition example_reddit_post :: reddit_post where
  "example_reddit_post = \<lparr>r_id = ''t3_a'', r_url = ''https://i.example/a.png'', r_title = Some ''A'',
     r_flair = None, r_score = 10, r_subreddit = ''pics'', is_self = False, stickied = False,
     is_gallery = False, gallery_urls = None\<rparr>"

definition fetching_session :: session where
  "fetching_session = snd (fetchNextRedditPage_issue ''pics'' real_session)"

definition exhausted_session :: session where
  "exhausted_session = fetchNextRedditPage_settle ''pics'' Rejected fetching_session"

definition example_post :: "string \<Rightarrow> post" where
  "example_post u = \<lparr>post_id = ''p'', file_url = u, score = Some 500, tags = [''tracer''],
     title = None, flair = None\<rparr>"

definition example_api :: "nat \<Rightarrow> post list option" where
  "example_api pid = (if pid = 3 then Some [example_post ''https://x.example/a.png''] else Some [])"

section \<open>Properties of the quota store\<close>

lemma stored_balance_upd:
  "stored_balance (st(uid \<mapsto> stringify d)) u =
     (if u = uid then remainingMinutes d else stored_balance st u)"
  by (simp add: stored_balance_def stringify_def parse_doc_def)

lemma getUserDataInternal_balance:
  "stored_balance (snd (getUserDataInternal f st uid)) u = stored_balance st u"
  by (auto simp: getUserDataInternal_def stored_balance_def stringify_def parse_doc_def defaultData_def
           split: option.splits)

lemma getUserDataInternal_reads:
  "remainingMinutes (fst (getUserDataInternal f st uid)) =
     (if get_fails f then DEFAULT_STARTING_TIME else stored_balance st uid)"
  by (auto simp: getUserDataInternal_def stored_balance_def defaultData_def split: option.splits)

lemma updateUserTime_balance:
  "stored_balance (updateUserTime f st uid m) u =
     (if u = uid \<and> \<not> save_fails f
      then max 0 ((if get_fails f then DEFAULT_STARTING_TIME else stored_balance st uid) - m)
      else stored_balance st u)"
  using getUserDataInternal_balance [of f st uid u] getUserDataInternal_reads [of f st uid]
  by (cases "getUserDataInternal f st uid")
     (simp add: updateUserTime_def saveUserDataInternal_def stored_balance_upd)

lemma setUserTime_balance:
  "stored_balance (setUserTime f st uid m) u =
     (if u = uid \<and> \<not> save_fails f then max 0 m else stored_balance st u)"
  using getUserDataInternal_balance [of f st uid u]
  by (cases "getUserDataInternal f st uid")
     (simp add: setUserTime_def saveUserDataInternal_def stored_balance_upd)

lemma addUserTime_balance:
  "stored_balance (addUserTime f st uid m) u =
     (if u = uid \<and> \<not> save_fails f
      then (if get_fails f then DEFAULT_STARTING_TIME else stored_balance st uid) + max 0 m
      else stored_balance st u)"
  using getUserDataInternal_balance [of f st uid u] getUserDataInternal_reads [of f st uid]
  by (cases "getUserDataInternal f st uid")
     (simp add: addUserTime_def saveUserDataInternal_def stored_balance_upd)

text \<open>
  C10. Every mutation of the quota store preserves non-negativity of the remaining-time
  balance: if a user's stored balance is non-negative, it is still non-negative after
  \<open>updateUserTime\<close>, \<open>setUserTime\<close> or \<open>addUserTime\<close> for any user with any integer
  argument (negative or huge), whichever Redis round-trips fail.
\<close>

theorem quota_mutations_keep_balance_nonneg:
  assumes "0 \<le> stored_balance st u"
  shows "0 \<le> stored_balance (updateUserTime f st uid m) u
       \<and> 0 \<le> stored_balance (setUserTime f st uid m) u
       \<and> 0 \<le> stored_balance (addUserTime f st uid m) u"
  using assms
  by (auto simp: updateUserTime_balance setUserTime_balance addUserTime_balance
                 DEFAULT_STARTING_TIME_def)

theorem quota_mutations_keep_balance_nonneg_witness:
  "0 \<le> stored_balance Map.empty ''u1''
   \<and> stored_balance (updateUserTime no_faults Map.empty ''u1'' 1000000) ''u1'' = 0
   \<and> stored_balance (setUserTime no_faults Map.empty ''u1'' (- 7)) ''u1'' = 0
   \<and> stored_balance (addUserTime no_faults Map.empty ''u1'' (- 7)) ''u1'' = 20"
proof -
  have e: "stored_balance Map.empty ''u1'' = 20"
    by (simp add: stored_balance_def DEFAULT_STARTING_TIME_def)
  have h: "0 \<le> stored_balance Map.empty ''u1''"
    by (simp add: e)
  have "stored_balance (updateUserTime no_faults Map.empty ''u1'' 1000000) ''u1'' = 0"
    by (simp add: updateUserTime_balance no_faults_def e)
  moreover have "stored_balance (setUserTime no_faults Map.empty ''u1'' (- 7)) ''u1'' = 0"
    by (simp add: setUserTime_balance no_faults_def)
  moreover have "stored_balance (addUserTime no_faults Map.empty ''u1'' (- 7)) ''u1'' = 20"
    by (simp add: addUserTime_balance no_faults_def e)
  ultimately show ?thesis
    using h quota_mutations_keep_balance_nonneg [OF h, of no_faults "''u1''" 1000000]
    by simp
qed

section \<open>Ending a session\<close>

lemma endSession_inactive:
  "\<not> session_active w sid \<Longrightarrow> endSession e reason sid w = (Returned (), w)"
  by (cases w) (auto simp: endSession_def session_active_def split: option.splits)

lemma endSession_active:
  assumes "sessions l sid = Some s" "isActive s"
  shows "endSession e reason sid (l, r) =
    (Threw,
     l\<lparr>sessions := (sessions l)(sid \<mapsto> end_cleanup s),
       trace := trace l @ (if fst (getUserPremiumStatus (premium_faults e) (quota r) (userId s))
                           then [SummaryRegeneration (userId s)] else [])
                 @ [DeductMinutes (userId s) (elapsedMinutes_at (startTime s) (end_now e))]
                 @ clear_if_set (actionLoopTimerId s) @ clear_if_set (sessionEndTimerId s)\<rparr>,
     r\<lparr>quota := updateUserTime (deduct_faults e)
                  (snd (getUserPremiumStatus (premium_faults e) (quota r) (userId s)))
                  (userId s) (elapsedMinutes_at (startTime s) (end_now e))\<rparr>)"
  using assms
  by (cases "getUserPremiumStatus (premium_faults e) (quota r) (userId s)")
     (simp add: endSession_def Let_def)

lemma endSession_makes_inactive:
  "\<not> session_active (snd (endSession e reason sid w)) sid"
proof (cases "session_active w sid")
  case False
  then show ?thesis by (simp add: endSession_inactive)
next
  case True
  then obtain l r s where w: "w = (l, r)" and s: "sessions l sid = Some s" "isActive s"
    by (cases w) (auto simp: session_active_def split: option.splits)
  show ?thesis
    by (simp add: w endSession_active [OF s] session_active_def end_cleanup_def)
qed

lemma clear_if_set_all_clear: "filter is_clear (clear_if_set t) = clear_if_set t"
  and clear_if_set_no_deduct: "filter is_deduct (clear_if_set t) = []"
  and clear_if_set_no_delete: "filter is_registry_delete (clear_if_set t) = []"
  by (cases t; simp add: clear_if_set_def)+

text \<open>The static method \<open>deleteSession\<close>, where it is called, drops the user from the local
  map and requests the removal of the registry entry.\<close>

lemma deleteSession_requests_removal:
  "localActiveSessions (fst (deleteSession f uid w)) uid = None
   \<and> filter is_registry_delete (trace (fst (deleteSession f uid w)))
       = filter is_registry_delete (trace (fst w)) @ [RegistryDelete uid]"
  by (cases w) (simp add: deleteSession_def)

lemma clears_of_active:
  assumes "sessions l sid = Some s" "isActive s"
  shows "clear_if_set (actionLoopTimerId s) @ clear_if_set (sessionEndTimerId s)
           = map ClearTimeout (pending_timers (l, r) sid)"
  using assms
  by (cases "actionLoopTimerId s"; cases "sessionEndTimerId s")
     (simp_all add: clear_if_set_def pending_timers_def)

lemma no_timers_of_inactive: "\<not> session_active w sid \<Longrightarrow> pending_timers w sid = []"
  by (auto simp: pending_timers_def session_active_def split: option.splits)

text \<open>
  C4. A second \<open>endSession\<close> (any reason, any clock reading, any faults) after a first one
  returns at once and leaves the world exactly as the first one left it. Counted on the
  trace, the two calls together deduct quota once and cancel once each timer the session
  held, when the session was active, and do nothing when it was not. The removal of the
  registry entry is requested by neither call: the first call on an active session
  throws where it refers to \<open>SessionManager.deleteSession\<close>, so the trace gets no
  \<open>RegistryDelete\<close>, and the local map of the shard and the registry are as they were
  before the two calls.
\<close>

theorem endSession_twice_requests_no_registry_removal:
  "snd (endSession e2 reason2 sid (snd (endSession e1 reason1 sid w))) = snd (endSession e1 reason1 sid w)
   \<and> fst (endSession e2 reason2 sid (snd (endSession e1 reason1 sid w))) = Returned ()
   \<and> fst (endSession e1 reason1 sid w) = (if session_active w sid then Threw else Returned ())
   \<and> length (filter is_deduct (trace (fst (snd (endSession e2 reason2 sid (snd (endSession e1 reason1 sid w)))))))
       = length (filter is_deduct (trace (fst w))) + (if session_active w sid then 1 else 0)
   \<and> filter is_clear (trace (fst (snd (endSession e2 reason2 sid (snd (endSession e1 reason1 sid w))))))
       = filter is_clear (trace (fst w)) @ map ClearTimeout (pending_timers w sid)
   \<and> filter is_registry_delete (trace (fst (snd (endSession e2 reason2 sid (snd (endSession e1 reason1 sid w))))))
       = filter is_registry_delete (trace (fst w))
   \<and> localActiveSessions (fst (snd (endSession e2 reason2 sid (snd (endSession e1 reason1 sid w)))))
       = localActiveSessions (fst w)
   \<and> registry (snd (snd (endSession e2 reason2 sid (snd (endSession e1 reason1 sid w)))))
       = registry (snd w)"
proof -
  have second: "endSession e2 reason2 sid (snd (endSession e1 reason1 sid w))
                  = (Returned (), snd (endSession e1 reason1 sid w))"
    by (rule endSession_inactive) (rule endSession_makes_inactive)
  show ?thesis
  proof (cases "session_active w sid")
    case False
    then show ?thesis
      by (simp add: second endSession_inactive no_timers_of_inactive)
  next
    case True
    then obtain l r s where w: "w = (l, r)" and s: "sessions l sid = Some s" "isActive s"
      by (cases w) (auto simp: session_active_def split: option.splits)
    have act: "session_active (l, r) sid" using True w by simp
    have cl: "filter is_clear (clear_if_set (actionLoopTimerId s)) @ filter is_clear (clear_if_set (sessionEndTimerId s))
                = map ClearTimeout (pending_timers (l, r) sid)"
      by (simp add: clear_if_set_all_clear clears_of_active [OF s])
    show ?thesis
      unfolding second
      by (simp add: w endSession_active [OF s] act cl
            clear_if_set_no_deduct clear_if_set_no_delete)
  qed
qed

theorem endSession_twice_requests_no_registry_removal_witness:
  "session_active (timed_shard, example_redis) 7
   \<and> fst (endSession (quiet_end 90061) ''Duration Reached'' 7 (timed_shard, example_redis)) = Threw
   \<and> filter is_deduct (trace (fst (snd (endSession (quiet_end 200000) ''Requested by Manager'' 7
        (snd (endSession (quiet_end 90061) ''Duration Reached'' 7 (timed_shard, example_redis)))))))
       = [DeductMinutes ''u1'' 2]
   \<and> filter is_clear (trace (fst (snd (endSession (quiet_end 200000) ''Requested by Manager'' 7
        (snd (endSession (quiet_end 90061) ''Duration Reached'' 7 (timed_shard, example_redis)))))))
       = [ClearTimeout 5, ClearTimeout 6]
   \<and> filter is_registry_delete (trace (fst (snd (endSession (quiet_end 200000) ''Requested by Manager'' 7
        (snd (endSession (quiet_end 90061) ''Duration Reached'' 7 (timed_shard, example_redis)))))))
       = []
   \<and> localActiveSessions (fst (snd (endSession (quiet_end 200000) ''Requested by Manager'' 7
        (snd (endSession (quiet_end 90061) ''Duration Reached'' 7 (timed_shard, example_redis)))))) ''u1''
       = Some 7
   \<and> registry (snd (snd (endSession (quiet_end 200000) ''Requested by Manager'' 7
        (snd (endSession (quiet_end 90061) ''Duration Reached'' 7 (timed_shard, example_redis)))))) ''u1''
       = Some 0"
proof -
  let ?w = "(timed_shard, example_redis)"
  let ?w1 = "snd (endSession (quiet_end 90061) ''Duration Reached'' 7 ?w)"
  let ?w2 = "snd (endSession (quiet_end 200000) ''Requested by Manager'' 7 ?w1)"
  have a: "sessions timed_shard 7 = Some timed_session"
    by (simp add: timed_shard_def)
  have b: "isActive timed_session"
    by (simp add: timed_session_def example_session_def new_Session_def Let_def)
  have act: "session_active ?w 7"
    by (simp add: session_active_def a b)
  have p: "pending_timers ?w 7 = [5, 6]"
    by (simp add: pending_timers_def a b) (simp add: timed_session_def)
  have t: "trace (fst ?w) = []" "localActiveSessions (fst ?w) ''u1'' = Some 7" "registry (snd ?w) ''u1'' = Some 0"
    by (simp_all add: timed_shard_def example_redis_def)
  have u: "userId timed_session = ''u1''" and st: "startTime timed_session = 0"
    by (simp_all add: timed_session_def example_session_def new_Session_def Let_def)
  have n: "elapsedMinutes_at 0 90061 = 2"
    by (simp add: elapsedMinutes_at_def)
  note T = endSession_twice_requests_no_registry_removal
             [of "quiet_end 200000" "''Requested by Manager''" 7 "quiet_end 90061" "''Duration Reached''" ?w]
  have w2: "?w2 = ?w1"
    using T by blast
  have tt: "trace timed_shard = []"
    by (simp add: timed_shard_def)
  have en: "end_now (quiet_end 90061) = 90061"
    by (simp add: quiet_end_def)
  have d: "filter is_deduct (trace (fst ?w2)) = [DeductMinutes ''u1'' 2]"
    unfolding w2
    by (simp add: endSession_active [OF a b] u st n en clear_if_set_no_deduct tt)
  from T have "fst (endSession (quiet_end 90061) ''Duration Reached'' 7 ?w)
                 = (if session_active ?w 7 then Threw else Returned ())"
    by blast
  then have 1: "fst (endSession (quiet_end 90061) ''Duration Reached'' 7 ?w) = Threw"
    using act by simp
  from T have "filter is_clear (trace (fst ?w2))
                 = filter is_clear (trace (fst ?w)) @ map ClearTimeout (pending_timers ?w 7)"
    by blast
  then have 2: "filter is_clear (trace (fst ?w2)) = [ClearTimeout 5, ClearTimeout 6]"
    unfolding p by (simp add: tt)
  from T have "filter is_registry_delete (trace (fst ?w2)) = filter is_registry_delete (trace (fst ?w))"
    by blast
  then have 3: "filter is_registry_delete (trace (fst ?w2)) = []"
    by (simp add: tt)
  from T have "localActiveSessions (fst ?w2) = localActiveSessions (fst ?w)"
    by blast
  then have 4: "localActiveSessions (fst ?w2) ''u1'' = Some 7"
    using t(2) by simp
  from T have "registry (snd ?w2) = registry (snd ?w)"
    by blast
  then have 5: "registry (snd ?w2) ''u1'' = Some 0"
    using t(3) by simp
  show ?thesis
    using act d 1 2 3 4 5 by blast
qed

section \<open>Quota deduction at the end of a session\<close>

lemma getUserPremiumStatus_balance:
  "stored_balance (snd (getUserPremiumStatus f st uid)) u = stored_balance st u"
  using getUserDataInternal_balance [of f st uid u]
  by (simp add: getUserPremiumStatus_def split_beta)


lemma getUserTime_reads:
  "fst (getUserTime f st uid) = (if get_fails f then DEFAULT_STARTING_TIME else stored_balance st uid)"
  using getUserDataInternal_reads [of f st uid]
  by (simp add: getUserTime_def split_beta)

lemma elapsedMinutes_at_ceiling:
  "elapsedMinutes_at start now = \<lceil>real_of_int (now - start) / 60000\<rceil>"
  by (simp add: elapsedMinutes_at_def)

lemma elapsedMinutes_at_div:
  "elapsedMinutes_at start now = - ((start - now) div 60000)"
proof -
  have "elapsedMinutes_at start now = \<lceil>real_of_int (now - start) / real_of_int 60000\<rceil>"
    by (simp add: elapsedMinutes_at_def)
  also have "\<dots> = - (- (now - start) div 60000)"
    by (rule ceiling_divide_eq_div)
  finally show ?thesis by simp
qed

lemma elapsedMinutes_at_bounds:
  "(elapsedMinutes_at start now - 1) * 60000 < now - start \<and> now - start \<le> elapsedMinutes_at start now * 60000"
proof -
  define q where "q = (start - now) div 60000"
  define m where "m = (start - now) mod 60000"
  have e: "elapsedMinutes_at start now = - q"
    by (simp add: elapsedMinutes_at_div q_def)
  have d: "start - now = q * 60000 + m"
    by (simp add: q_def m_def)
  have b: "0 \<le> m" "m < 60000"
    by (simp_all add: m_def)
  have "(- q - 1) * 60000 < now - start" "now - start \<le> - q * 60000"
    using d b by (simp_all add: algebra_simps)
  then show ?thesis
    by (simp add: e)
qed

lemma elapsedMinutes_at_sign:
  "(0 \<le> elapsedMinutes_at start now) = (start - now < 60000)"
proof -
  define n where "n = elapsedMinutes_at start now"
  define x where "x = now - start"
  have b: "(n - 1) * 60000 < x" "x \<le> n * 60000"
    using elapsedMinutes_at_bounds [of start now] by (simp_all add: n_def x_def)
  have "(0 \<le> n) = (- x < 60000)"
  proof
    assume "0 \<le> n"
    then have "0 \<le> n * 60000" by simp
    then have "- 60000 \<le> (n - 1) * 60000" by (simp add: algebra_simps)
    with b(1) show "- x < 60000" by simp
  next
    assume h: "- x < 60000"
    show "0 \<le> n"
    proof (rule ccontr)
      assume "\<not> 0 \<le> n"
      then have "n \<le> - 1" by simp
      then have "n * 60000 \<le> (- 1) * 60000" by (rule mult_right_mono) simp
      with b(2) h show False by simp
    qed
  qed
  then show ?thesis by (simp add: n_def x_def)
qed

lemma elapsedMinutes_at_nonneg: "start \<le> now \<Longrightarrow> 0 \<le> elapsedMinutes_at start now"
  by (simp add: elapsedMinutes_at_sign)

text \<open>
  C5. When an active session ends, the end routine calls the quota deduction exactly
  once, with the difference of the clock readings at the end and at the start divided by
  60000 and rounded up: a number \<open>n\<close> of minutes with
  \<open>(n - 1) * 60000 < difference \<le> n * 60000\<close>. The readings are taken as they come:
  \<open>n\<close> is non-negative exactly when the end reading is less than 60000 ms before the
  start reading, so in particular whenever the clock did not go back. The stored balance
  becomes \<open>max 0 (b - n)\<close>, where \<open>b\<close> is the balance read, or the default of 20 minutes
  when the read fails, and stays as it was when the save fails. So with a clock that did
  not go back and a read that succeeds on a non-negative balance, the balance drops by
  at least 0 and at most \<open>n\<close> minutes.
\<close>

theorem deduction_is_clock_difference_rounded_up:
  assumes "sessions l sid = Some s" and "isActive s"
  shows "filter is_deduct (trace (fst (snd (endSession e reason sid (l, r)))))
           = filter is_deduct (trace l)
             @ [DeductMinutes (userId s) \<lceil>real_of_int (end_now e - startTime s) / 60000\<rceil>]
       \<and> (\<lceil>real_of_int (end_now e - startTime s) / 60000\<rceil> - 1) * 60000 < end_now e - startTime s
       \<and> end_now e - startTime s \<le> \<lceil>real_of_int (end_now e - startTime s) / 60000\<rceil> * 60000
       \<and> (0 \<le> \<lceil>real_of_int (end_now e - startTime s) / 60000\<rceil>) = (startTime s - end_now e < 60000)
       \<and> (startTime s \<le> end_now e \<longrightarrow> 0 \<le> \<lceil>real_of_int (end_now e - startTime s) / 60000\<rceil>)
       \<and> stored_balance (quota (snd (snd (endSession e reason sid (l, r))))) (userId s)
           = (if save_fails (deduct_faults e) then stored_balance (quota r) (userId s)
              else max 0 ((if get_fails (deduct_faults e) then DEFAULT_STARTING_TIME
                           else stored_balance (quota r) (userId s))
                          - \<lceil>real_of_int (end_now e - startTime s) / 60000\<rceil>))
       \<and> (startTime s \<le> end_now e \<and> \<not> get_fails (deduct_faults e)
            \<and> 0 \<le> stored_balance (quota r) (userId s) \<longrightarrow>
            0 \<le> stored_balance (quota r) (userId s)
                  - stored_balance (quota (snd (snd (endSession e reason sid (l, r))))) (userId s)
          \<and> stored_balance (quota r) (userId s)
                  - stored_balance (quota (snd (snd (endSession e reason sid (l, r))))) (userId s)
              \<le> \<lceil>real_of_int (end_now e - startTime s) / 60000\<rceil>)"
proof -
  let ?n = "elapsedMinutes_at (startTime s) (end_now e)"
  have n: "\<lceil>real_of_int (end_now e - startTime s) / 60000\<rceil> = ?n"
    by (simp add: elapsedMinutes_at_ceiling)
  have sg: "(0 \<le> ?n) = (startTime s - end_now e < 60000)"
    by (rule elapsedMinutes_at_sign)
  have nn: "startTime s \<le> end_now e \<longrightarrow> 0 \<le> ?n"
    by (simp add: elapsedMinutes_at_nonneg)
  have tr: "filter is_deduct (trace (fst (snd (endSession e reason sid (l, r)))))
           = filter is_deduct (trace l) @ [DeductMinutes (userId s) ?n]"
    by (simp add: endSession_active [OF assms(1,2)] clear_if_set_no_deduct)
  have bal: "stored_balance (quota (snd (snd (endSession e reason sid (l, r))))) (userId s)
      = (if save_fails (deduct_faults e) then stored_balance (quota r) (userId s)
         else max 0 ((if get_fails (deduct_faults e) then DEFAULT_STARTING_TIME
                       else stored_balance (quota r) (userId s)) - ?n))"
    by (simp add: endSession_active [OF assms(1,2)] updateUserTime_balance getUserPremiumStatus_balance)
  have drop: "startTime s \<le> end_now e \<and> \<not> get_fails (deduct_faults e)
            \<and> 0 \<le> stored_balance (quota r) (userId s) \<longrightarrow>
            0 \<le> stored_balance (quota r) (userId s)
                  - stored_balance (quota (snd (snd (endSession e reason sid (l, r))))) (userId s)
          \<and> stored_balance (quota r) (userId s)
                  - stored_balance (quota (snd (snd (endSession e reason sid (l, r))))) (userId s)
              \<le> ?n"
    using nn by (auto simp: bal)
  show ?thesis
    unfolding n
    using tr elapsedMinutes_at_bounds [of "startTime s" "end_now e"] sg nn bal drop
    by blast
qed

theorem deduction_is_clock_difference_rounded_up_witness:
  "sessions example_shard 7 = Some example_session \<and> isActive example_session
   \<and> startTime example_session \<le> end_now (quiet_end 90061)
   \<and> \<not> get_fails (deduct_faults (quiet_end 90061))
   \<and> stored_balance (quota example_redis) ''u1'' = 20
   \<and> filter is_deduct (trace (fst (snd (endSession (quiet_end 90061) ''User Stop Command'' 7 (example_shard, example_redis)))))
       = [DeductMinutes ''u1'' 2]
   \<and> stored_balance (quota (snd (snd (endSession (quiet_end 90061) ''User Stop Command'' 7 (example_shard, example_redis))))) ''u1'' = 18"
proof -
  have a: "sessions example_shard 7 = Some example_session"
    by (simp add: example_shard_def)
  have b: "isActive example_session"
    by (simp add: example_session_def new_Session_def Let_def)
  have c: "startTime example_session \<le> end_now (quiet_end 90061)"
    by (simp add: example_session_def new_Session_def Let_def quiet_end_def)
  have u: "userId example_session = ''u1''" and st: "startTime example_session = 0"
    by (simp_all add: example_session_def new_Session_def Let_def)
  have q: "stored_balance (quota example_redis) ''u1'' = 20"
    by (simp add: example_redis_def stored_balance_def DEFAULT_STARTING_TIME_def)
  have f: "\<not> get_fails (deduct_faults (quiet_end 90061))" "\<not> save_fails (deduct_faults (quiet_end 90061))"
    by (simp_all add: quiet_end_def no_faults_def)
  have t: "trace example_shard = []" by (simp add: example_shard_def)
  have n: "\<lceil>real_of_int (end_now (quiet_end 90061) - startTime example_session) / 60000\<rceil> = 2"
    by (simp add: st quiet_end_def)
  note T = deduction_is_clock_difference_rounded_up
             [OF a b, of "quiet_end 90061" "''User Stop Command''" example_redis, unfolded n u t]
  from T have d: "filter is_deduct (trace (fst (snd (endSession (quiet_end 90061) ''User Stop Command'' 7 (example_shard, example_redis)))))
       = [DeductMinutes ''u1'' 2]"
    by simp
  from T f q have bal: "stored_balance (quota (snd (snd (endSession (quiet_end 90061) ''User Stop Command'' 7 (example_shard, example_redis))))) ''u1'' = 18"
    by simp
  show ?thesis
    using a b c f(1) q bal d by blast
qed

text \<open>
  A session started at clock reading 90000 and ended at reading 0 (the clock of the host
  was set back in between): the end routine passes \<open>-1\<close> to the quota deduction, and the
  balance rises from 20 to 21 minutes. And a user with 100 minutes whose session ends
  after 150 seconds while the quota read fails: 3 minutes are passed, and the balance
  falls to 17 minutes.
\<close>

theorem deduction_negative_or_from_default_counterexample:
  "filter is_deduct (trace (fst (snd (endSession (quiet_end 0) ''Duration Reached'' 7 (set_back_shard, example_redis)))))
     = [DeductMinutes ''u1'' (- 1)]
   \<and> stored_balance (quota example_redis) ''u1'' = 20
   \<and> stored_balance (quota (snd (snd (endSession (quiet_end 0) ''Duration Reached'' 7 (set_back_shard, example_redis))))) ''u1''
       = 21
   \<and> filter is_deduct (trace (fst (snd (endSession unread_end ''Duration Reached'' 7 (example_shard, rich_redis)))))
     = [DeductMinutes ''u1'' 3]
   \<and> stored_balance (quota rich_redis) ''u1'' = 100
   \<and> stored_balance (quota (snd (snd (endSession unread_end ''Duration Reached'' 7 (example_shard, rich_redis))))) ''u1''
       = 17"
proof -
  have a: "sessions set_back_shard 7 = Some set_back_session"
    by (simp add: set_back_shard_def)
  have b: "isActive set_back_session" "userId set_back_session = ''u1''" "startTime set_back_session = 90000"
    by (simp_all add: set_back_session_def new_Session_def Let_def)
  have t: "trace set_back_shard = []" by (simp add: set_back_shard_def)
  have n: "elapsedMinutes_at 90000 0 = - 1"
    by (simp add: elapsedMinutes_at_div)
  have q: "stored_balance (quota example_redis) ''u1'' = 20"
    by (simp add: example_redis_def stored_balance_def DEFAULT_STARTING_TIME_def)
  have 1: "filter is_deduct (trace (fst (snd (endSession (quiet_end 0) ''Duration Reached'' 7 (set_back_shard, example_redis)))))
     = [DeductMinutes ''u1'' (- 1)]"
    by (simp add: endSession_active [OF a b(1)] b t n quiet_end_def clear_if_set_no_deduct)
  have 2: "stored_balance (quota (snd (snd (endSession (quiet_end 0) ''Duration Reached'' 7 (set_back_shard, example_redis))))) ''u1''
       = 21"
    by (simp add: endSession_active [OF a b(1)] b n quiet_end_def no_faults_def
          updateUserTime_balance getUserPremiumStatus_balance q)
  have a': "sessions example_shard 7 = Some example_session"
    by (simp add: example_shard_def)
  have b': "isActive example_session" "userId example_session = ''u1''" "startTime example_session = 0"
    by (simp_all add: example_session_def new_Session_def Let_def)
  have t': "trace example_shard = []" by (simp add: example_shard_def)
  have n': "elapsedMinutes_at 0 150000 = 3"
    by (simp add: elapsedMinutes_at_div)
  have q': "stored_balance (quota rich_redis) ''u1'' = 100"
    by (simp add: rich_redis_def stored_balance_def parse_doc_def stringify_def defaultData_def)
  have 3: "filter is_deduct (trace (fst (snd (endSession unread_end ''Duration Reached'' 7 (example_shard, rich_redis)))))
     = [DeductMinutes ''u1'' 3]"
    by (simp add: endSession_active [OF a' b'(1)] b' t' n' unread_end_def clear_if_set_no_deduct)
  have 4: "stored_balance (quota (snd (snd (endSession unread_end ''Duration Reached'' 7 (example_shard, rich_redis))))) ''u1''
       = 17"
    by (simp add: endSession_active [OF a' b'(1)] b' n' unread_end_def no_faults_def
          updateUserTime_balance getUserPremiumStatus_balance q' DEFAULT_STARTING_TIME_def)
  show ?thesis
    using 1 2 3 4 q q' by blast
qed

section \<open>The time check of the action cycle\<close>

lemma clear_if_set_other:
  "filter is_notice (clear_if_set t) = []"
  "filter is_delivery (clear_if_set t) = []"
  "filter is_set_timeout (clear_if_set t) = []"
  by (cases t; simp add: clear_if_set_def)+

lemma cycle_time_up:
  assumes "sessions l sid = Some s" "isActive s" "dmChannelId s = Some ch" "channel_ok e"
    and "(if get_fails (time_faults e) then DEFAULT_STARTING_TIME else stored_balance (quota r) (userId s))
           \<le> elapsedMinutes_at (startTime s) (now_check e)"
  shows "executeNextActionCycle e sid (l, r) =
     endSession (ending e) ''Ran out of time'' sid
       (l\<lparr>trace := trace l @ [SendNotice]\<rparr>,
        r\<lparr>quota := snd (getUserTime (time_faults e)
             (snd (getUserPremiumStatus (cycle_premium_faults e) (quota r) (userId s))) (userId s))\<rparr>)"
proof -
  obtain p q1 where p: "getUserPremiumStatus (cycle_premium_faults e) (quota r) (userId s) = (p, q1)"
    by (cases "getUserPremiumStatus (cycle_premium_faults e) (quota r) (userId s)")
  obtain t q2 where t: "getUserTime (time_faults e) q1 (userId s) = (t, q2)"
    by (cases "getUserTime (time_faults e) q1 (userId s)")
  have "stored_balance q1 (userId s) = stored_balance (quota r) (userId s)"
    using getUserPremiumStatus_balance [of "cycle_premium_faults e" "quota r" "userId s" "userId s"]
    by (simp add: p)
  then have "t = (if get_fails (time_faults e) then DEFAULT_STARTING_TIME else stored_balance (quota r) (userId s))"
    using getUserTime_reads [of "time_faults e" q1 "userId s"] by (simp add: t)
  then have le: "t \<le> elapsedMinutes_at (startTime s) (now_check e)"
    using assms(5) by simp
  show ?thesis
    using assms(1-4) le
    by (simp add: executeNextActionCycle_def p t Let_def)
qed

lemma cycle_no_channel:
  assumes "sessions l sid = Some s" "isActive s" "dmChannelId s = Some ch" "\<not> channel_ok e"
  shows "executeNextActionCycle e sid (l, r) =
     endSession (ending e) ''DM Channel Fetch Failed'' sid
       (l, r\<lparr>quota := snd (getUserPremiumStatus (cycle_premium_faults e) (quota r) (userId s))\<rparr>)"
  using assms by (simp add: executeNextActionCycle_def Let_def split_beta)

text \<open>
  How such a cycle ends: the end routine it calls throws where it refers to
  \<open>SessionManager.deleteSession\<close>, so the promise of the cycle rejects, no removal of the
  registry entry is requested, and the user's entries in the local map of the shard and
  in the registry stay.
\<close>

lemma ending_cycle_rejects:
  assumes "sessions l sid = Some s" and "isActive s" and "dmChannelId s = Some ch"
    and "(if get_fails (time_faults e) then DEFAULT_STARTING_TIME else stored_balance (quota r) (userId s))
           \<le> \<lceil>real_of_int (now_check e - startTime s) / 60000\<rceil>"
  shows "fst (executeNextActionCycle e sid (l, r)) = Threw
       \<and> localActiveSessions (fst (snd (executeNextActionCycle e sid (l, r)))) = localActiveSessions l
       \<and> registry (snd (snd (executeNextActionCycle e sid (l, r)))) = registry r
       \<and> filter is_registry_delete (trace (fst (snd (executeNextActionCycle e sid (l, r)))))
           = filter is_registry_delete (trace l)"
proof (cases "channel_ok e")
  case True
  have le: "(if get_fails (time_faults e) then DEFAULT_STARTING_TIME else stored_balance (quota r) (userId s))
           \<le> elapsedMinutes_at (startTime s) (now_check e)"
    using assms(4) by (simp add: elapsedMinutes_at_ceiling)
  have s': "sessions (l\<lparr>trace := trace l @ [SendNotice]\<rparr>) sid = Some s"
    using assms(1) by simp
  show ?thesis
    unfolding cycle_time_up [OF assms(1-3) True le] endSession_active [OF s' assms(2)]
    by (simp add: clear_if_set_no_delete)
next
  case False
  show ?thesis
    unfolding cycle_no_channel [OF assms(1-3) False] endSession_active [OF assms(1,2)]
    by (simp add: clear_if_set_no_delete)
qed



section \<open>Creating a session\<close>

lemma ceiling_minutes: "\<lceil>real_of_int x / 60000\<rceil> = - ((- x) div 60000)"
  using ceiling_divide_eq_div [of x 60000, where ?'a = real] by simp

lemma createSession_after_lookup_owned:
  "createSession_after_lookup e shard uid p d n u (Some owner) w = (Returned None, w)"
  by (cases w) (simp add: createSession_after_lookup_def)

lemma new_Session_fields:
  "isActive (new_Session sid now uid p d n u)"
  "userId (new_Session sid now uid p d n u) = uid"
  "startTime (new_Session sid now uid p d n u) = now"
  "actionLoopTimerId (new_Session sid now uid p d n u) = None"
  "sessionEndTimerId (new_Session sid now uid p d n u) = None"
  by (simp_all add: new_Session_def Let_def)

lemma createSession_after_lookup_rollback:
  assumes "registry_set_fails e"
  shows "createSession_after_lookup e shard uid p d n u None (l, r) =
     (Threw,
      snd (endSession (rollback_env e) ''Redis Registration Failed'' (new_sessionId e)
        (l\<lparr>sessions := (sessions l)(new_sessionId e \<mapsto> new_Session (new_sessionId e) (create_now e) uid p d n u),
           localActiveSessions := (localActiveSessions l)(uid := None)\<rparr>, r)))"
proof -
  let ?s = "new_Session (new_sessionId e) (create_now e) uid p d n u"
  let ?l = "l\<lparr>sessions := (sessions l)(new_sessionId e \<mapsto> ?s),
              localActiveSessions := (localActiveSessions l)(uid := None)\<rparr>"
  have s: "sessions ?l (new_sessionId e) = Some ?s" by simp
  note E = endSession_active [OF s new_Session_fields(1), of "rollback_env e" "''Redis Registration Failed''" r]
  have "fst (endSession (rollback_env e) ''Redis Registration Failed'' (new_sessionId e) (?l, r)) = Threw"
    by (simp add: E)
  then show ?thesis
    using assms
    by (cases "endSession (rollback_env e) ''Redis Registration Failed'' (new_sessionId e) (?l, r)")
       (simp add: createSession_after_lookup_def Let_def)
qed

text \<open>
  C3. \<open>createSession\<close> refuses, changing nothing, whenever the registry lookup reports an
  owning shard. When the lookup reports none and the registration write fails, the
  \<open>catch\<close> block removes the user from the local map and runs the end routine on the new
  Session: the object is cleaned up and inactive, and its elapsed time is deducted. The
  end routine then throws where it refers to \<open>SessionManager.deleteSession\<close>, inside that
  \<open>catch\<close> block: \<open>createSession\<close> throws instead of returning the refusal, and the
  registry is left as it was, with no removal requested.
\<close>

theorem createSession_refuses_but_rollback_throws:
  "(registry r uid = Some owner \<and> \<not> registry_get_fails e \<longrightarrow>
      createSession e (Some shard) uid p d n u (l, r) = (Returned None, (l, r)))
   \<and> (registry r uid = None \<and> \<not> registry_get_fails e \<and> registry_set_fails e \<longrightarrow>
      fst (createSession e (Some shard) uid p d n u (l, r)) = Threw
      \<and> localActiveSessions (fst (snd (createSession e (Some shard) uid p d n u (l, r))))
          = (localActiveSessions l)(uid := None)
      \<and> sessions (fst (snd (createSession e (Some shard) uid p d n u (l, r)))) (new_sessionId e)
          = Some (end_cleanup (new_Session (new_sessionId e) (create_now e) uid p d n u))
      \<and> \<not> session_active (snd (createSession e (Some shard) uid p d n u (l, r))) (new_sessionId e)
      \<and> filter is_deduct (trace (fst (snd (createSession e (Some shard) uid p d n u (l, r)))))
          = filter is_deduct (trace l)
            @ [DeductMinutes uid \<lceil>real_of_int (end_now (rollback_env e) - create_now e) / 60000\<rceil>]
      \<and> filter is_registry_delete (trace (fst (snd (createSession e (Some shard) uid p d n u (l, r)))))
          = filter is_registry_delete (trace l)
      \<and> registry (snd (snd (createSession e (Some shard) uid p d n u (l, r)))) = registry r)"
proof (intro conjI impI)
  assume "registry r uid = Some owner \<and> \<not> registry_get_fails e"
  then show "createSession e (Some shard) uid p d n u (l, r) = (Returned None, (l, r))"
    by (simp add: createSession_def createSession_after_lookup_owned)
next
  assume h: "registry r uid = None \<and> \<not> registry_get_fails e \<and> registry_set_fails e"
  let ?s = "new_Session (new_sessionId e) (create_now e) uid p d n u"
  let ?l = "l\<lparr>sessions := (sessions l)(new_sessionId e \<mapsto> ?s),
              localActiveSessions := (localActiveSessions l)(uid := None)\<rparr>"
  have s: "sessions ?l (new_sessionId e) = Some ?s" by simp
  have c: "createSession e (Some shard) uid p d n u (l, r) =
     (Threw, snd (endSession (rollback_env e) ''Redis Registration Failed'' (new_sessionId e) (?l, r)))"
    using h by (simp add: createSession_def createSession_after_lookup_rollback)
  note E = endSession_active [OF s new_Session_fields(1), of "rollback_env e" "''Redis Registration Failed''" r]
  show "fst (createSession e (Some shard) uid p d n u (l, r)) = Threw"
    by (simp add: c)
  show "localActiveSessions (fst (snd (createSession e (Some shard) uid p d n u (l, r))))
          = (localActiveSessions l)(uid := None)"
    unfolding c E by simp
  show "sessions (fst (snd (createSession e (Some shard) uid p d n u (l, r)))) (new_sessionId e)
          = Some (end_cleanup ?s)"
    unfolding c E by simp
  show "\<not> session_active (snd (createSession e (Some shard) uid p d n u (l, r))) (new_sessionId e)"
    unfolding c E by (simp add: session_active_def end_cleanup_def)
  show "filter is_deduct (trace (fst (snd (createSession e (Some shard) uid p d n u (l, r)))))
          = filter is_deduct (trace l)
            @ [DeductMinutes uid \<lceil>real_of_int (end_now (rollback_env e) - create_now e) / 60000\<rceil>]"
    unfolding c E by (simp add: new_Session_fields clear_if_set_def elapsedMinutes_at_ceiling)
  show "filter is_registry_delete (trace (fst (snd (createSession e (Some shard) uid p d n u (l, r)))))
          = filter is_registry_delete (trace l)"
    unfolding c E by (simp add: new_Session_fields clear_if_set_def)
  show "registry (snd (snd (createSession e (Some shard) uid p d n u (l, r)))) = registry r"
    unfolding c E by simp
qed

theorem createSession_refuses_but_rollback_throws_witness:
  "registry example_redis ''u1'' = Some 0 \<and> \<not> registry_get_fails failing_registration
   \<and> createSession failing_registration (Some 1) ''u1'' example_plugin None [] False (example_shard, example_redis)
       = (Returned None, (example_shard, example_redis))
   \<and> registry empty_redis ''u1'' = None \<and> registry_set_fails failing_registration
   \<and> fst (createSession failing_registration (Some 1) ''u1'' example_plugin None [] False (empty_shard, empty_redis))
       = Threw
   \<and> localActiveSessions (fst (snd (createSession failing_registration (Some 1) ''u1'' example_plugin None [] False
        (empty_shard, empty_redis)))) ''u1'' = None
   \<and> \<not> session_active (snd (createSession failing_registration (Some 1) ''u1'' example_plugin None [] False
        (empty_shard, empty_redis))) 8
   \<and> filter is_deduct (trace (fst (snd (createSession failing_registration (Some 1) ''u1'' example_plugin None [] False
        (empty_shard, empty_redis))))) = [DeductMinutes ''u1'' 1]
   \<and> filter is_registry_delete (trace (fst (snd (createSession failing_registration (Some 1) ''u1'' example_plugin None [] False
        (empty_shard, empty_redis))))) = []"
proof -
  have a: "registry example_redis ''u1'' = Some 0 \<and> \<not> registry_get_fails failing_registration"
    by (simp add: example_redis_def failing_registration_def)
  have b: "registry empty_redis ''u1'' = None \<and> \<not> registry_get_fails failing_registration
           \<and> registry_set_fails failing_registration"
    by (simp add: empty_redis_def failing_registration_def)
  have i: "new_sessionId failing_registration = 8"
    by (simp add: failing_registration_def)
  have n: "\<lceil>real_of_int (end_now (rollback_env failing_registration) - create_now failing_registration) / 60000\<rceil> = 1"
    by (simp only: ceiling_minutes) (simp add: failing_registration_def quiet_end_def)
  have t: "trace empty_shard = []" "localActiveSessions empty_shard = Map.empty"
    by (simp_all add: empty_shard_def)
  note T1 = createSession_refuses_but_rollback_throws
      [of example_redis "''u1''" 0 failing_registration 1 example_plugin None "[]" False example_shard,
       THEN conjunct1, rule_format, OF a]
  note T2 = createSession_refuses_but_rollback_throws
      [of empty_redis "''u1''" 0 failing_registration 1 example_plugin None "[]" False empty_shard,
       THEN conjunct2, rule_format, OF b, unfolded i n t]
  from T2 have "localActiveSessions (fst (snd (createSession failing_registration (Some 1) ''u1'' example_plugin None [] False
        (empty_shard, empty_redis)))) ''u1'' = None"
    by simp
  moreover from T2 have "filter is_deduct (trace (fst (snd (createSession failing_registration (Some 1) ''u1'' example_plugin None [] False
        (empty_shard, empty_redis))))) = [DeductMinutes ''u1'' 1]"
    by simp
  moreover from T2 have "filter is_registry_delete (trace (fst (snd (createSession failing_registration (Some 1) ''u1'' example_plugin None [] False
        (empty_shard, empty_redis))))) = []"
    by simp
  ultimately show ?thesis
    using a b T1 T2 by blast
qed

section \<open>Concurrent creation on several shards\<close>

lemmas cluster_eval =
  create_step_def createSession_after_lookup_def racing_envs_def idle_cluster_def
  empty_shard_def empty_redis_def succeeded_def active_session_on_def new_Session_def Let_def

text \<open>
  C1. Two shards call \<open>createSession\<close> for the same user, who has no session anywhere,
  and Redis serves both lookups before either registration write (the schedule
  \<open>[0, 1, 0, 1]\<close>). The claim wants exactly one attempt to succeed; here both return a
  session, each shard holds an active local Session for the user, and the registry names
  only the shard that wrote last.
\<close>

theorem interleaved_createSession_both_succeed:
  "succeeded (run_schedule racing_envs ''u1'' example_plugin [0, 1, 0, 1] idle_cluster) 0
   \<and> succeeded (run_schedule racing_envs ''u1'' example_plugin [0, 1, 0, 1] idle_cluster) 1
   \<and> active_session_on (run_schedule racing_envs ''u1'' example_plugin [0, 1, 0, 1] idle_cluster) 0 ''u1''
   \<and> active_session_on (run_schedule racing_envs ''u1'' example_plugin [0, 1, 0, 1] idle_cluster) 1 ''u1''
   \<and> registry (shared (run_schedule racing_envs ''u1'' example_plugin [0, 1, 0, 1] idle_cluster)) ''u1'' = Some 1"
  by (simp add: cluster_eval)

text \<open>When the calls do not overlap (the schedule \<open>[0, 0, 1, 1]\<close>), the second one
  is refused.\<close>

lemma sequential_createSession_one_succeeds:
  "succeeded (run_schedule racing_envs ''u1'' example_plugin [0, 0, 1, 1] idle_cluster) 0
   \<and> \<not> succeeded (run_schedule racing_envs ''u1'' example_plugin [0, 0, 1, 1] idle_cluster) 1
   \<and> active_session_on (run_schedule racing_envs ''u1'' example_plugin [0, 0, 1, 1] idle_cluster) 0 ''u1''
   \<and> \<not> active_session_on (run_schedule racing_envs ''u1'' example_plugin [0, 0, 1, 1] idle_cluster) 1 ''u1''
   \<and> registry (shared (run_schedule racing_envs ''u1'' example_plugin [0, 0, 1, 1] idle_cluster)) ''u1'' = Some 0"
  by (simp add: cluster_eval)

section \<open>The paired queues\<close>

text \<open>The order of \<open>Object.keys\<close>: array indices first, by value, then the other keys as
  inserted.\<close>

lemma Object_keys_example:
  "Object_keys [''pics'', ''196'', ''7'', ''007'', ''pics''] = [''7'', ''196'', ''pics'', ''007'']"
  by code_simp









































lemma example_session_fields:
  "mediaBatchQueue example_session = []" "commentaryQueue example_session = []"
  "characterType example_session = ''fictional''" "isActive example_session"
  "actionLoopTimerId example_session = None"
  by (simp_all add: example_session_def new_Session_def Let_def example_plugin_def truthy_def)



section \<open>Batch commentary and its caller\<close>

lemma all_strings_roundtrip:
  "\<not> list_ex (\<lambda>c. \<not> is_JStr c) xs \<Longrightarrow> map JStr (map str_of xs) = xs"
proof (induction xs)
  case Nil
  then show ?case by simp
next
  case (Cons x xs)
  then show ?case by (cases x) simp_all
qed

lemma generateBatchCommentary_Some:
  assumes "generateBatchCommentary P avail reply info = Some cs"
  shows "avail \<and> info \<noteq> []
       \<and> (\<exists>raw. reply = Some raw
             \<and> P (substring (trim raw) (indexOf (trim raw) CHR ''['') (lastIndexOf (trim raw) CHR '']'' + 1))
                 = Some (JArr (map JStr cs)))"
proof -
  have a: "avail" "info \<noteq> []"
    using assms by (auto simp: generateBatchCommentary_def split: if_splits)
  obtain raw where raw: "reply = Some raw"
    using assms a by (cases reply) (auto simp: generateBatchCommentary_def)
  let ?pj = "substring (trim raw) (indexOf (trim raw) CHR ''['') (lastIndexOf (trim raw) CHR '']'' + 1)"
  have c: "(case P ?pj of
              None \<Rightarrow> None
            | Some (JArr xs) \<Rightarrow> if list_ex (\<lambda>c. \<not> is_JStr c) xs then None else Some (map str_of xs)
            | Some _ \<Rightarrow> None) = Some cs"
    using assms a raw by (simp add: generateBatchCommentary_def Let_def)
  then obtain j where j: "P ?pj = Some j"
    by (cases "P ?pj") auto
  from c j obtain xs where xs: "j = JArr xs"
    by (cases j) auto
  from c j xs have "\<not> list_ex (\<lambda>c. \<not> is_JStr c) xs" "cs = map str_of xs"
    by (auto split: if_splits)
  then have "map JStr cs = xs"
    using all_strings_roundtrip [of xs] by simp
  then show ?thesis
    using a raw j xs by simp
qed

lemma fictional_path_alt:
  "fictional_path e s =
     (if fetched_batch e \<noteq> [] then
        (case generateBatchCommentary (JSON_parse e) (model_available e) (llm_reply e)
                (mediaBatchInfo_of (fetched_batch e)) of
           Some cs \<Rightarrow>
             if length cs = length (fetched_batch e)
             then s\<lparr>mediaBatchQueue := fetched_batch e, commentaryQueue := cs\<rparr>
             else s\<lparr>mediaBatchQueue := [], commentaryQueue := []\<rparr>
         | None \<Rightarrow> s\<lparr>mediaBatchQueue := [], commentaryQueue := []\<rparr>)
      else s)"
  by (simp add: fictional_path_def fetched_batch_def Let_def split: option.splits)

lemma fictional_refill_discards:
  assumes "characterType s = ''fictional''"
    and "case generateBatchCommentary (JSON_parse e) (model_available e) (llm_reply e)
                (mediaBatchInfo_of (fetched_batch e)) of
           None \<Rightarrow> True
         | Some cs \<Rightarrow> length cs \<noteq> length (fetched_batch e)"
  shows "refill e s = (None, None, s\<lparr>mediaBatchQueue := [], commentaryQueue := []\<rparr>, [])"
proof (cases "generateBatchCommentary (JSON_parse e) (model_available e) (llm_reply e)
                (mediaBatchInfo_of (fetched_batch e))")
  case None
  then show ?thesis
    using assms(1) by (simp add: refill_def fictional_path_alt Let_def)
next
  case (Some cs)
  then have "length cs \<noteq> length (fetched_batch e)"
    using assms(2) by simp
  then show ?thesis
    using assms(1) Some by (simp add: refill_def fictional_path_alt Let_def)
qed

lemma fictional_refill_keeps:
  assumes "characterType s = ''fictional''" and "fetched_batch e \<noteq> []"
    and "generateBatchCommentary (JSON_parse e) (model_available e) (llm_reply e)
                (mediaBatchInfo_of (fetched_batch e)) = Some cs"
    and "length cs = length (fetched_batch e)"
  shows "refill e s = (None, None, s\<lparr>mediaBatchQueue := fetched_batch e, commentaryQueue := cs\<rparr>, [])"
  using assms by (simp add: refill_def fictional_path_alt Let_def)

text \<open>
  C7, as the code has it. \<open>generateBatchCommentary\<close> returns commentaries only when a
  model is available, the batch is non-empty and the bracketed part of the trimmed reply
  parses to an array of strings, which it returns whatever their number. The caller
  compares the count with the fetched batch: on \<open>null\<close> or a different count, a cycle
  that had to refill ends with both queues empty, delivers nothing and (while the session
  is active) schedules the next cycle; on an equal count the batch is kept and its first
  pair is taken.
\<close>

theorem batch_count_checked_by_caller:
  "(generateBatchCommentary P avail reply info = Some cs \<longrightarrow>
      avail \<and> info \<noteq> []
      \<and> (\<exists>raw. reply = Some raw
            \<and> P (substring (trim raw) (indexOf (trim raw) CHR ''['') (lastIndexOf (trim raw) CHR '']'' + 1))
                = Some (JArr (map JStr cs))))
   \<and> (characterType s = ''fictional'' \<and> (commentaryQueue s = [] \<or> mediaBatchQueue s = [])
        \<and> (case generateBatchCommentary (JSON_parse e) (model_available e) (llm_reply e)
                   (mediaBatchInfo_of (fetched_batch e)) of
              None \<Rightarrow> True
            | Some cs' \<Rightarrow> length cs' \<noteq> length (fetched_batch e)) \<longrightarrow>
        mediaBatchQueue (fst (cycle_body e s)) = [] \<and> commentaryQueue (fst (cycle_body e s)) = []
        \<and> filter is_delivery (snd (cycle_body e s)) = []
        \<and> filter is_set_timeout (snd (cycle_body e s)) = (if isActive s then [SetTimeout (new_timer e)] else []))
   \<and> (characterType s = ''fictional'' \<and> (commentaryQueue s = [] \<or> mediaBatchQueue s = [])
        \<and> fetched_batch e \<noteq> []
        \<and> generateBatchCommentary (JSON_parse e) (model_available e) (llm_reply e)
             (mediaBatchInfo_of (fetched_batch e)) = Some cs
        \<and> length cs = length (fetched_batch e) \<longrightarrow>
        sel_media (cycle_select e s) = Some (hd (fetched_batch e))
        \<and> sel_commentary (cycle_select e s) = Some (hd cs)
        \<and> mediaBatchQueue (sel_session (cycle_select e s)) = tl (fetched_batch e)
        \<and> commentaryQueue (sel_session (cycle_select e s)) = tl cs)"
proof (intro conjI impI)
  assume "generateBatchCommentary P avail reply info = Some cs"
  from generateBatchCommentary_Some [OF this]
  show "avail" and "info \<noteq> []"
    and "\<exists>raw. reply = Some raw
            \<and> P (substring (trim raw) (indexOf (trim raw) CHR ''['') (lastIndexOf (trim raw) CHR '']'' + 1))
                = Some (JArr (map JStr cs))"
    by blast+
next
  assume h: "characterType s = ''fictional'' \<and> (commentaryQueue s = [] \<or> mediaBatchQueue s = [])
        \<and> (case generateBatchCommentary (JSON_parse e) (model_available e) (llm_reply e)
                   (mediaBatchInfo_of (fetched_batch e)) of
              None \<Rightarrow> True
            | Some cs' \<Rightarrow> length cs' \<noteq> length (fetched_batch e))"
  let ?s1 = "s\<lparr>postCycleCount := Suc (postCycleCount s)\<rparr>"
  have r: "refill e ?s1 = (None, None, ?s1\<lparr>mediaBatchQueue := [], commentaryQueue := []\<rparr>, [])"
    using h by (intro fictional_refill_discards) simp_all
  have c: "cycle_select e ?s1 = (None, None, ?s1\<lparr>mediaBatchQueue := [], commentaryQueue := []\<rparr>, [])"
  proof -
    have "\<not> (commentaryQueue ?s1 \<noteq> [] \<and> mediaBatchQueue ?s1 \<noteq> [])" using h by auto
    then show ?thesis by (simp add: cycle_select_def r)
  qed
  show "mediaBatchQueue (fst (cycle_body e s)) = []" and "commentaryQueue (fst (cycle_body e s)) = []"
    and "filter is_delivery (snd (cycle_body e s)) = []"
    and "filter is_set_timeout (snd (cycle_body e s)) = (if isActive s then [SetTimeout (new_timer e)] else [])"
    by (simp_all add: cycle_body_def c Let_def split_beta startActionLoopTimer_def clear_if_set_other)
next
  assume h: "characterType s = ''fictional'' \<and> (commentaryQueue s = [] \<or> mediaBatchQueue s = [])
        \<and> fetched_batch e \<noteq> []
        \<and> generateBatchCommentary (JSON_parse e) (model_available e) (llm_reply e)
             (mediaBatchInfo_of (fetched_batch e)) = Some cs
        \<and> length cs = length (fetched_batch e)"
  then have r: "refill e s = (None, None, s\<lparr>mediaBatchQueue := fetched_batch e, commentaryQueue := cs\<rparr>, [])"
    by (intro fictional_refill_keeps) simp_all
  have ne: "cs \<noteq> []" "fetched_batch e \<noteq> []" using h by auto
  have slow: "\<not> (commentaryQueue s \<noteq> [] \<and> mediaBatchQueue s \<noteq> [])" using h by auto
  have c: "cycle_select e s = (Some (hd (fetched_batch e)), Some (hd cs),
      s\<lparr>mediaBatchQueue := tl (fetched_batch e), commentaryQueue := tl cs\<rparr>, [])"
  proof (cases "commentaryQueue s = []")
    case True
    then show ?thesis using ne by (simp add: cycle_select_def r)
  next
    case False
    then have "mediaBatchQueue s = []" using slow by simp
    then show ?thesis using ne by (simp add: cycle_select_def r)
  qed
  show "sel_media (cycle_select e s) = Some (hd (fetched_batch e))"
    and "sel_commentary (cycle_select e s) = Some (hd cs)"
    and "mediaBatchQueue (sel_session (cycle_select e s)) = tl (fetched_batch e)"
    and "commentaryQueue (sel_session (cycle_select e s)) = tl cs"
    by (simp_all add: c sel_media_def sel_commentary_def sel_session_def)
qed

lemma two_commentaries_parse:
  "generateBatchCommentary example_JSON_parse True (Some two_commentaries_reply)
     (mediaBatchInfo_of three_media) = Some [''first'', ''second'']"
  by code_simp

lemma two_commentaries_parse_matching:
  "generateBatchCommentary example_JSON_parse True (Some two_commentaries_reply)
     (mediaBatchInfo_of [example_media ''a.png'', example_media ''b.png'']) = Some [''first'', ''second'']"
  by code_simp

text \<open>
  C7, as stated, fails: for a batch of three media items and a reply that parses to two
  strings, \<open>generateBatchCommentary\<close> returns the two commentaries, not \<open>null\<close>.
\<close>

theorem batch_commentary_count_counterexample:
  "generateBatchCommentary example_JSON_parse True (Some two_commentaries_reply)
     (mediaBatchInfo_of three_media) = Some [''first'', ''second'']
   \<and> length [''first'', ''second''] \<noteq> length (mediaBatchInfo_of three_media)"
  using two_commentaries_parse by (simp add: three_media_def mediaBatchInfo_of_def)

theorem batch_count_checked_by_caller_witness:
  "generateBatchCommentary example_JSON_parse True (Some two_commentaries_reply)
     (mediaBatchInfo_of three_media) = Some [''first'', ''second'']
   \<and> characterType example_session = ''fictional'' \<and> commentaryQueue example_session = []
   \<and> fetched_batch short_reply_cycle = three_media
   \<and> mediaBatchQueue (fst (cycle_body short_reply_cycle example_session)) = []
   \<and> commentaryQueue (fst (cycle_body short_reply_cycle example_session)) = []
   \<and> filter is_delivery (snd (cycle_body short_reply_cycle example_session)) = []
   \<and> filter is_set_timeout (snd (cycle_body short_reply_cycle example_session)) = [SetTimeout 3]
   \<and> fetched_batch matching_cycle = [example_media ''a.png'', example_media ''b.png'']
   \<and> sel_media (cycle_select matching_cycle example_session) = Some (example_media ''a.png'')
   \<and> sel_commentary (cycle_select matching_cycle example_session) = Some ''first''
   \<and> mediaBatchQueue (sel_session (cycle_select matching_cycle example_session)) = [example_media ''b.png'']
   \<and> commentaryQueue (sel_session (cycle_select matching_cycle example_session)) = [''second'']"
proof -
  have e1: "JSON_parse short_reply_cycle = example_JSON_parse" "model_available short_reply_cycle"
    "llm_reply short_reply_cycle = Some two_commentaries_reply" "new_timer short_reply_cycle = 3"
    and f1: "fetched_batch short_reply_cycle = three_media"
    by (simp_all add: short_reply_cycle_def quiet_cycle_def fetched_batch_def)
  have e2: "JSON_parse matching_cycle = example_JSON_parse" "model_available matching_cycle"
    "llm_reply matching_cycle = Some two_commentaries_reply"
    and f2: "fetched_batch matching_cycle = [example_media ''a.png'', example_media ''b.png'']"
    by (simp_all add: matching_cycle_def short_reply_cycle_def quiet_cycle_def fetched_batch_def)
  have g1: "generateBatchCommentary (JSON_parse short_reply_cycle) (model_available short_reply_cycle)
      (llm_reply short_reply_cycle) (mediaBatchInfo_of three_media) = Some [''first'', ''second'']"
    using two_commentaries_parse by (simp add: e1)
  have g2: "generateBatchCommentary (JSON_parse matching_cycle) (model_available matching_cycle)
      (llm_reply matching_cycle) (mediaBatchInfo_of [example_media ''a.png'', example_media ''b.png''])
        = Some [''first'', ''second'']"
    using two_commentaries_parse_matching by (simp add: e2)
  have h1: "characterType example_session = ''fictional''
      \<and> (commentaryQueue example_session = [] \<or> mediaBatchQueue example_session = [])
      \<and> (case generateBatchCommentary (JSON_parse short_reply_cycle) (model_available short_reply_cycle)
             (llm_reply short_reply_cycle) (mediaBatchInfo_of (fetched_batch short_reply_cycle)) of
            None \<Rightarrow> True
          | Some cs' \<Rightarrow> length cs' \<noteq> length (fetched_batch short_reply_cycle))"
    unfolding f1 g1 by (simp add: example_session_fields three_media_def)
  have h2: "characterType example_session = ''fictional''
      \<and> (commentaryQueue example_session = [] \<or> mediaBatchQueue example_session = [])
      \<and> fetched_batch matching_cycle \<noteq> []
      \<and> generateBatchCommentary (JSON_parse matching_cycle) (model_available matching_cycle)
           (llm_reply matching_cycle) (mediaBatchInfo_of (fetched_batch matching_cycle)) = Some [''first'', ''second'']
      \<and> length [''first'', ''second''] = length (fetched_batch matching_cycle)"
    unfolding f2 g2 by (simp add: example_session_fields)
  note T1 = batch_count_checked_by_caller
    [where P = example_JSON_parse and avail = True and reply = "Some two_commentaries_reply"
       and info = "mediaBatchInfo_of three_media" and cs = "[''first'', ''second'']"
       and s = example_session and e = short_reply_cycle, THEN conjunct2, THEN conjunct1, rule_format, OF h1]
  note T2 = batch_count_checked_by_caller
    [where P = example_JSON_parse and avail = True and reply = "Some two_commentaries_reply"
       and info = "mediaBatchInfo_of three_media" and cs = "[''first'', ''second'']"
       and s = example_session and e = matching_cycle, THEN conjunct2, THEN conjunct2, rule_format, OF h2]
  from T1 have
    "mediaBatchQueue (fst (cycle_body short_reply_cycle example_session)) = []"
    "commentaryQueue (fst (cycle_body short_reply_cycle example_session)) = []"
    "filter is_delivery (snd (cycle_body short_reply_cycle example_session)) = []"
    "filter is_set_timeout (snd (cycle_body short_reply_cycle example_session)) = [SetTimeout 3]"
    by (simp_all add: example_session_fields e1)
  moreover from T2 have
    "sel_media (cycle_select matching_cycle example_session) = Some (example_media ''a.png'')"
    "sel_commentary (cycle_select matching_cycle example_session) = Some ''first''"
    "mediaBatchQueue (sel_session (cycle_select matching_cycle example_session)) = [example_media ''b.png'']"
    "commentaryQueue (sel_session (cycle_select matching_cycle example_session)) = [''second'']"
    by (simp_all add: f2)
  ultimately show ?thesis
    using two_commentaries_parse f1 f2 example_session_fields by simp
qed

section \<open>Exhausted sources\<close>

lemma issue_noop:
  assumes "redditFetchState s sub = Some state" "isFetching state \<or> allFetched state"
  shows "fetchNextRedditPage_issue sub s = (None, s)"
  using assms by (auto simp: fetchNextRedditPage_issue_def)

lemma issue_closed:
  assumes "closed_source s sub"
  shows "closed_source (snd (fetchNextRedditPage_issue sub' s)) sub"
  using assms
  by (auto simp: fetchNextRedditPage_issue_def closed_source_def split: option.splits)

lemma issue_not_for_closed:
  assumes "closed_source s sub" "fetchNextRedditPage_issue sub' s = (Some rq, s')"
  shows "request_source rq \<noteq> sub"
  using assms
  by (auto simp: fetchNextRedditPage_issue_def closed_source_def split: option.splits if_splits)

lemma settle_closed:
  assumes "closed_source s sub"
  shows "closed_source (fetchNextRedditPage_settle sub' res s) sub"
  using assms
  by (auto simp: fetchNextRedditPage_settle_def closed_source_def
           split: option.splits reddit_result.splits)

lemma end_cleanup_closed: "closed_source (end_cleanup s) sub"
  by (simp add: closed_source_def end_cleanup_def)

lemma run_fetch_events_closed:
  "closed_source s sub \<Longrightarrow>
     requests_to sub (fst (run_fetch_events evs s)) = []
     \<and> closed_source (snd (run_fetch_events evs s)) sub"
proof (induction evs arbitrary: s)
  case Nil
  then show ?case by (simp add: requests_to_def)
next
  case (Cons ev evs)
  show ?case
  proof (cases ev)
    case (Refill sub')
    obtain rq s' where i: "fetchNextRedditPage_issue sub' s = (rq, s')"
      by (cases "fetchNextRedditPage_issue sub' s")
    have c: "closed_source s' sub"
      using issue_closed [OF Cons.prems, of sub'] by (simp add: i)
    note IH = Cons.IH [OF c]
    show ?thesis
    proof (cases rq)
      case None
      then show ?thesis using IH by (simp add: Refill i)
    next
      case (Some q)
      have "request_source q \<noteq> sub"
        using issue_not_for_closed [OF Cons.prems] i Some by simp
      then show ?thesis
        using IH by (simp add: Refill i Some split_beta requests_to_def)
    qed
  next
    case (Settles sub' res)
    show ?thesis
      using Cons.IH [OF settle_closed [OF Cons.prems, of sub' res]] by (simp add: Settles)
  next
    case Ends
    show ?thesis
      using Cons.IH [OF end_cleanup_closed, of s] by (simp add: Ends)
  qed
qed

lemma settle_marks_exhausted:
  assumes "isActive s" "redditFetchState s sub = Some state"
  shows "exhausted (fetchNextRedditPage_settle sub Rejected s) sub"
    and "exhausted (fetchNextRedditPage_settle sub Null s) sub"
    and "exhausted (fetchNextRedditPage_settle sub (Page [] next) s) sub"
    and "\<not> truthy next \<Longrightarrow> exhausted (fetchNextRedditPage_settle sub (Page posts next) s) sub"
  using assms by (simp_all add: fetchNextRedditPage_settle_def exhausted_def)

text \<open>
  C8. A refill of a source whose state is fetching or exhausted is a no-op: it sends no
  request and leaves the session as it is. A settling request marks its source exhausted
  on a rejection, on \<open>null\<close>, on an empty page and on a page without a next cursor. Once
  a source is exhausted, no sequence of refills, settling requests and session end ever
  sends a request to it again, and it stays exhausted (or is dropped with the session).
\<close>

theorem exhausted_source_never_refetched:
  "(redditFetchState s sub = Some state \<and> (isFetching state \<or> allFetched state) \<longrightarrow>
      fetchNextRedditPage_issue sub s = (None, s)
      \<and> fetchNextRedditPage result sub s = (False, s))
   \<and> (isActive s \<and> redditFetchState s sub = Some state \<longrightarrow>
        exhausted (fetchNextRedditPage_settle sub Rejected s) sub
      \<and> exhausted (fetchNextRedditPage_settle sub Null s) sub
      \<and> exhausted (fetchNextRedditPage_settle sub (Page [] next) s) sub
      \<and> (\<not> truthy next \<longrightarrow> exhausted (fetchNextRedditPage_settle sub (Page posts next) s) sub))
   \<and> (exhausted s sub \<longrightarrow>
        requests_to sub (fst (run_fetch_events evs s)) = []
      \<and> closed_source (snd (run_fetch_events evs s)) sub)"
proof (intro conjI impI)
  assume h: "redditFetchState s sub = Some state \<and> (isFetching state \<or> allFetched state)"
  then show i: "fetchNextRedditPage_issue sub s = (None, s)"
    using issue_noop [of s sub state] by blast
  show "fetchNextRedditPage result sub s = (False, s)"
    by (simp add: fetchNextRedditPage_def i)
next
  assume h: "isActive s \<and> redditFetchState s sub = Some state"
  then have a: "isActive s" and b: "redditFetchState s sub = Some state" by simp_all
  show "exhausted (fetchNextRedditPage_settle sub Rejected s) sub"
    and "exhausted (fetchNextRedditPage_settle sub Null s) sub"
    and "exhausted (fetchNextRedditPage_settle sub (Page [] next) s) sub"
    by (rule settle_marks_exhausted [OF a b])+
  assume "\<not> truthy next"
  then show "exhausted (fetchNextRedditPage_settle sub (Page posts next) s) sub"
    by (rule settle_marks_exhausted(4) [OF a b])
next
  assume "exhausted s sub"
  then have c: "closed_source s sub"
    by (simp add: exhausted_def closed_source_def split: option.splits)
  show "requests_to sub (fst (run_fetch_events evs s)) = []"
    and "closed_source (snd (run_fetch_events evs s)) sub"
    using run_fetch_events_closed [OF c, of evs] by simp_all
qed


lemma real_session_state:
  "isActive real_session"
  "redditFetchState real_session ''pics''
     = Some \<lparr>after = None, isFetching = False, allFetched = False, currentPage = 0\<rparr>"
  by (simp_all add: real_session_def initRedditFetchState_def new_Session_def real_plugin_def
        truthy_def Let_def)

lemma fetching_session_state:
  "isActive fetching_session"
  "redditFetchState fetching_session ''pics''
     = Some \<lparr>after = None, isFetching = True, allFetched = False, currentPage = 0\<rparr>"
  by (simp_all add: fetching_session_def fetchNextRedditPage_issue_def real_session_state)

lemma exhausted_session_state:
  "redditFetchState exhausted_session ''pics''
     = Some \<lparr>after = None, isFetching = False, allFetched = True, currentPage = 0\<rparr>"
  by (simp add: exhausted_session_def fetchNextRedditPage_settle_def fetching_session_state)

theorem exhausted_source_never_refetched_witness:
  "redditFetchState fetching_session ''pics''
     = Some \<lparr>after = None, isFetching = True, allFetched = False, currentPage = 0\<rparr>
   \<and> fetchNextRedditPage_issue ''pics'' fetching_session = (None, fetching_session)
   \<and> isActive fetching_session
   \<and> exhausted (fetchNextRedditPage_settle ''pics'' Rejected fetching_session) ''pics''
   \<and> exhausted (fetchNextRedditPage_settle ''pics'' (Page [example_reddit_post] None) fetching_session) ''pics''
   \<and> exhausted exhausted_session ''pics''
   \<and> requests_to ''pics'' (fst (run_fetch_events
        [Refill ''pics'', Settles ''pics'' (Page [example_reddit_post] (Some ''t3_a'')), Refill ''pics'']
        exhausted_session)) = []
   \<and> fst (run_fetch_events [Refill ''pics'', Refill ''pics''] real_session) = [TopPosts ''pics'' None]"
proof -
  let ?busy = "\<lparr>after = None, isFetching = True, allFetched = False, currentPage = 0\<rparr>"
  have h1: "redditFetchState fetching_session ''pics'' = Some ?busy
            \<and> (isFetching ?busy \<or> allFetched ?busy)"
    by (simp add: fetching_session_state)
  have h2: "isActive fetching_session \<and> redditFetchState fetching_session ''pics'' = Some ?busy"
    by (simp add: fetching_session_state)
  have n: "\<not> truthy None"
    by (simp add: truthy_def)
  have h3: "exhausted exhausted_session ''pics''"
    by (simp add: exhausted_def exhausted_session_state)
  note T1 = exhausted_source_never_refetched
    [where s = fetching_session and sub = "''pics''" and state = ?busy and result = Null
       and ?next = None and posts = "[example_reddit_post]" and evs = "[]",
     THEN conjunct1, rule_format, OF h1]
  note T2 = exhausted_source_never_refetched
    [where s = fetching_session and sub = "''pics''" and state = ?busy and result = Null
       and ?next = None and posts = "[example_reddit_post]" and evs = "[]",
     THEN conjunct2, THEN conjunct1, rule_format, OF h2]
  note T3 = exhausted_source_never_refetched
    [where s = exhausted_session and sub = "''pics''" and state = ?busy and result = Null
       and ?next = None and posts = "[example_reddit_post]"
       and evs = "[Refill ''pics'', Settles ''pics'' (Page [example_reddit_post] (Some ''t3_a'')), Refill ''pics'']",
     THEN conjunct2, THEN conjunct2, rule_format, OF h3]
  have fresh: "fst (run_fetch_events [Refill ''pics'', Refill ''pics''] real_session) = [TopPosts ''pics'' None]"
    by (simp add: fetchNextRedditPage_issue_def real_session_state)
  show ?thesis
    using h1 h2 h3 T1 T2 T3 n fresh by simp
qed

section \<open>Pages and cursors\<close>


lemma draw_page_fresh:
  "draw_page att ds = Some (p, ds') \<Longrightarrow> p \<notin> set att \<and> p \<le> MAX_FETCH_PAGE"
  by (induction ds) (auto simp: Let_def MAX_FETCH_PAGE_def split: if_splits)

lemma fetch_loop_pages:
  "fetch_loop api tgs posted bs mx draws att found cur = Some (b, pages, rest) \<Longrightarrow>
   distinct att \<Longrightarrow> list_all (\<lambda>p. p \<le> MAX_FETCH_PAGE) att \<Longrightarrow>
   distinct pages \<and> list_all (\<lambda>p. p \<le> MAX_FETCH_PAGE) pages \<and> length pages \<le> length att + (mx - cur)"
proof (induction api tgs posted bs mx draws att found cur rule: fetch_loop.induct)
  case (1 api tgs posted bs mx draws att found cur)
  show ?case
  proof (cases "length found < bs \<and> cur < mx \<and> length att \<le> MAX_FETCH_PAGE + 1")
    case False
    then have "fetch_loop api tgs posted bs mx draws att found cur = Some (found, att, draws)"
      by (subst fetch_loop.simps) auto
    then show ?thesis using "1.prems" by simp
  next
    case go: True
    show ?thesis
    proof (cases "length att \<ge> MAX_FETCH_PAGE + 1")
      case True
      then have "fetch_loop api tgs posted bs mx draws att found cur = Some (found, att, draws)"
        using go by (subst fetch_loop.simps) auto
      then show ?thesis using "1.prems" by simp
    next
      case room: False
      show ?thesis
      proof (cases "draw_page att draws")
        case None
        then have "fetch_loop api tgs posted bs mx draws att found cur = None"
          using go room by (subst fetch_loop.simps) auto
        then show ?thesis using "1.prems" by simp
      next
        case (Some pd)
        obtain p draws' where pd: "pd = (p, draws')" by (cases pd)
        have fresh: "p \<notin> set att" "p \<le> MAX_FETCH_PAGE"
          using draw_page_fresh [of att draws p draws'] Some pd by simp_all
        have d: "distinct (att @ [p])" "list_all (\<lambda>p. p \<le> MAX_FETCH_PAGE) (att @ [p])"
          using fresh "1.prems" by simp_all
        show ?thesis
        proof (cases "searchPosts api tgs p")
          case None
          have e: "fetch_loop api tgs posted bs mx draws att found cur
              = fetch_loop api tgs posted bs mx draws' (att @ [p]) found (Suc cur)"
            using go room Some pd None by (subst fetch_loop.simps) auto
          have "distinct pages \<and> list_all (\<lambda>p. p \<le> MAX_FETCH_PAGE) pages
                \<and> length pages \<le> length (att @ [p]) + (mx - Suc cur)"
            using "1.IH"(1) [OF go room Some pd [symmetric] None _ d] "1.prems"(1) e by simp
          then show ?thesis using go by auto
        next
          case (Some posts)
          let ?found = "if posts = [] then found
                        else add_unique posted bs (filter suitable_for_batch posts) found"
          have e: "fetch_loop api tgs posted bs mx draws att found cur
              = fetch_loop api tgs posted bs mx draws' (att @ [p]) ?found (Suc cur)"
            using go room \<open>draw_page att draws = Some pd\<close> pd Some by (subst fetch_loop.simps) auto
          have "distinct pages \<and> list_all (\<lambda>p. p \<le> MAX_FETCH_PAGE) pages
                \<and> length pages \<le> length (att @ [p]) + (mx - Suc cur)"
            using "1.IH"(2) [OF go room \<open>draw_page att draws = Some pd\<close> pd [symmetric] Some _ d]
              "1.prems"(1) e by simp
          then show ?thesis using go by auto
        qed
      qed
    qed
  qed
qed


lemma issue_request:
  assumes "isActive s" "sub \<noteq> []" "redditFetchState s sub = Some state"
    "\<not> isFetching state" "\<not> allFetched state"
  shows "fetchNextRedditPage_issue sub s
     = (Some (TopPosts sub (after state)),
        s\<lparr>redditFetchState := (redditFetchState s)(sub \<mapsto> state\<lparr>isFetching := True\<rparr>)\<rparr>)"
  using assms by (simp add: fetchNextRedditPage_issue_def)

lemma next_request_uses_returned_cursor:
  assumes "isActive s" "sub \<noteq> []" "redditFetchState s sub = Some state"
    "\<not> isFetching state" "\<not> allFetched state" "posts \<noteq> []"
  shows "fst (fetchNextRedditPage_issue sub (snd (fetchNextRedditPage (Page posts next) sub s)))
     = (if truthy next then Some (TopPosts sub next) else None)"
  using assms
  by (simp add: fetchNextRedditPage_def issue_request fetchNextRedditPage_settle_def
        fetchNextRedditPage_issue_def)

text \<open>
  C9, as the code has it. Within one call of \<open>fetchMediaBatch\<close> (one refill of a
  tag-indexed source) the pages requested are pairwise distinct, lie in
  \<open>0..MAX_FETCH_PAGE\<close> and number at most \<open>maxPageAttempts\<close>. For the cursor-based
  source, a refill requests the stored cursor, and the refill after a non-empty page
  requests the cursor that page returned, or nothing when it returned none.
\<close>

theorem pages_fresh_within_a_refill:
  "(fetchMediaBatch api draws ctype tgs posted batchSize maxPageAttempts = Some (batch, pages, rest) \<longrightarrow>
      distinct pages \<and> list_all (\<lambda>p. p \<le> MAX_FETCH_PAGE) pages \<and> length pages \<le> maxPageAttempts)
   \<and> (isActive s \<and> sub \<noteq> [] \<and> redditFetchState s sub = Some state
        \<and> \<not> isFetching state \<and> \<not> allFetched state \<and> posts \<noteq> [] \<longrightarrow>
        fst (fetchNextRedditPage_issue sub s) = Some (TopPosts sub (after state))
      \<and> fst (fetchNextRedditPage_issue sub (snd (fetchNextRedditPage (Page posts next) sub s)))
          = (if truthy next then Some (TopPosts sub next) else None))"
proof (intro conjI impI)
  assume h: "fetchMediaBatch api draws ctype tgs posted batchSize maxPageAttempts = Some (batch, pages, rest)"
  have "distinct pages \<and> list_all (\<lambda>p. p \<le> MAX_FETCH_PAGE) pages \<and> length pages \<le> maxPageAttempts"
  proof (cases "ctype = ''fictional''")
    case False
    then show ?thesis using h by (simp add: fetchMediaBatch_def)
  next
    case True
    then have "fetch_loop api tgs posted batchSize maxPageAttempts draws [] [] 0 = Some (batch, pages, rest)"
      using h by (simp add: fetchMediaBatch_def)
    from fetch_loop_pages [OF this] show ?thesis by simp
  qed
  then show "distinct pages" and "list_all (\<lambda>p. p \<le> MAX_FETCH_PAGE) pages"
    and "length pages \<le> maxPageAttempts"
    by simp_all
next
  assume h: "isActive s \<and> sub \<noteq> [] \<and> redditFetchState s sub = Some state
        \<and> \<not> isFetching state \<and> \<not> allFetched state \<and> posts \<noteq> []"
  then show "fst (fetchNextRedditPage_issue sub s) = Some (TopPosts sub (after state))"
    by (simp add: issue_request)
  from h show "fst (fetchNextRedditPage_issue sub (snd (fetchNextRedditPage (Page posts next) sub s)))
          = (if truthy next then Some (TopPosts sub next) else None)"
    using next_request_uses_returned_cursor [of s sub state posts "next"] by blast
qed

lemma first_refill_pages:
  "fetchMediaBatch example_api [3, 5, 7, 1, 0] ''fictional'' [''tracer''] {} 3 5
     = Some ([\<lparr>url = ''https://x.example/a.png'', post = example_post ''https://x.example/a.png''\<rparr>],
             [3, 5, 7, 1, 0], [])"
  by code_simp

lemma second_refill_pages:
  "fetchMediaBatch example_api [3, 8, 2, 6, 9] ''fictional'' [''tracer''] {''https://x.example/a.png''} 3 5
     = Some ([], [3, 8, 2, 6, 9], [])"
  by code_simp

text \<open>
  C9, as stated, fails for the tag-indexed source: the set of attempted pages is local to
  one call of \<open>fetchMediaBatch\<close>, so two consecutive refills of a session (the second
  with the first one's media already posted) can both request page 3.
\<close>

theorem page_requested_again_counterexample:
  "requested_pages (fetchMediaBatch example_api [3, 5, 7, 1, 0] ''fictional'' [''tracer''] {} 3 5)
     = [3, 5, 7, 1, 0]
   \<and> requested_pages (fetchMediaBatch example_api [3, 8, 2, 6, 9] ''fictional'' [''tracer'']
        {''https://x.example/a.png''} 3 5) = [3, 8, 2, 6, 9]"
  unfolding first_refill_pages second_refill_pages requested_pages_def by simp

theorem pages_fresh_within_a_refill_witness:
  "fetchMediaBatch example_api [3, 3, 5, 3, 7, 1, 0] ''fictional'' [''tracer''] {} 3 5
     = Some ([\<lparr>url = ''https://x.example/a.png'', post = example_post ''https://x.example/a.png''\<rparr>],
             [3, 5, 7, 1, 0], [])
   \<and> distinct [3, 5, 7, 1, 0 :: nat]
   \<and> isActive real_session
   \<and> redditFetchState real_session ''pics''
       = Some \<lparr>after = None, isFetching = False, allFetched = False, currentPage = 0\<rparr>
   \<and> fst (fetchNextRedditPage_issue ''pics'' real_session) = Some (TopPosts ''pics'' None)
   \<and> fst (fetchNextRedditPage_issue ''pics''
        (snd (fetchNextRedditPage (Page [example_reddit_post] (Some ''t3_a'')) ''pics'' real_session)))
       = Some (TopPosts ''pics'' (Some ''t3_a''))
   \<and> fst (fetchNextRedditPage_issue ''pics''
        (snd (fetchNextRedditPage (Page [example_reddit_post] None) ''pics'' real_session)))
       = None"
proof -
  let ?idle = "\<lparr>after = None, isFetching = False, allFetched = False, currentPage = 0\<rparr>"
  have f: "fetchMediaBatch example_api [3, 3, 5, 3, 7, 1, 0] ''fictional'' [''tracer''] {} 3 5
     = Some ([\<lparr>url = ''https://x.example/a.png'', post = example_post ''https://x.example/a.png''\<rparr>],
             [3, 5, 7, 1, 0], [])"
    by code_simp
  have h: "isActive real_session \<and> ''pics'' \<noteq> [] \<and> redditFetchState real_session ''pics'' = Some ?idle
        \<and> \<not> isFetching ?idle \<and> \<not> allFetched ?idle \<and> [example_reddit_post] \<noteq> []"
    by (simp add: real_session_state)
  have t: "truthy (Some ''t3_a'')" "\<not> truthy None"
    by (simp_all add: truthy_def)
  note T1 = pages_fresh_within_a_refill
    [where s = real_session and sub = "''pics''" and state = ?idle and posts = "[example_reddit_post]"
       and ?next = "Some ''t3_a''", THEN conjunct1, rule_format, OF f]
  note T2 = pages_fresh_within_a_refill
    [where api = example_api and draws = "[]" and ctype = "''fictional''" and tgs = "[]" and posted = "{}"
       and batchSize = 0 and maxPageAttempts = 0 and batch = "[]" and pages = "[]" and rest = "[]"
       and s = real_session and sub = "''pics''" and state = ?idle and posts = "[example_reddit_post]"
       and ?next = "Some ''t3_a''", THEN conjunct2, rule_format, OF h]
  note T3 = pages_fresh_within_a_refill
    [where api = example_api and draws = "[]" and ctype = "''fictional''" and tgs = "[]" and posted = "{}"
       and batchSize = 0 and maxPageAttempts = 0 and batch = "[]" and pages = "[]" and rest = "[]"
       and s = real_session and sub = "''pics''" and state = ?idle and posts = "[example_reddit_post]"
       and ?next = None, THEN conjunct2, rule_format, OF h]
  show ?thesis
    using f T1 T2 T3 t real_session_state by simp
qed

end
